theory Spec2Isabelle
  imports Main "HOL-Library.AList"
begin

section \<open>Data model\<close>

text \<open>
  The warehouse tool reads spreadsheets with pandas. A cell of a frame is a text, an
  integer or the missing value \<open>NaN\<close>; a row handed out by \<open>iterrows\<close> is a
  \<open>Series\<close>, an ordered table from column labels to cells. Assigning to a label of a
  series overwrites the cell in place when the label exists and appends it otherwise, which
  is what \<open>AList.update\<close> does on an association list.

  Quantities and stock levels are integers (Python \<open>int\<close>, pandas \<open>int64\<close>). A blank
  quantity would turn the whole column into floating point; such a file is reported by the
  model as \<open>Float_quantity\<close> at the first arithmetic on the blank and no statement below
  speaks about its result. SKU and MSKU keys of the lookup tables are texts.
\<close>

datatype cell = Str string | Num int | NaN

type_synonym series = "(string \<times> cell) list"

definition row_get :: "series \<Rightarrow> string \<Rightarrow> cell \<Rightarrow> cell" where
  "row_get row label dflt = (case map_of row label of Some c \<Rightarrow> c | None \<Rightarrow> dflt)"

definition row_set :: "string \<Rightarrow> cell \<Rightarrow> series \<Rightarrow> series" where
  "row_set label c row = AList.update label c row"

record dataframe =
  df_columns :: "string list"
  df_rows :: "series list"

text \<open>A row of the sheet \<open>Msku With Skus\<close> (class \<open>SKUMapping\<close> in the database models).\<close>

record sku_mapping =
  m_sku :: string
  m_msku :: string
  m_platform :: string

datatype platform = Amazon | Flipkart | Meesho | Unknown

fun platform_name :: "platform \<Rightarrow> string" where
  "platform_name Amazon = ''Amazon''"
| "platform_name Flipkart = ''Flipkart''"
| "platform_name Meesho = ''Meesho''"
| "platform_name Unknown = ''Unknown''"

text \<open>
  The state of a \<open>WMSProcessor\<close>: the mapping sheet, the dictionary built by
  \<open>create_combo_mapping\<close> (in insertion order) and the inventory frame.
\<close>

record wms =
  mapping_data :: "sku_mapping list"
  combo_mapping :: "(string \<times> string list) list"
  current_inventory :: dataframe

text \<open>
  The state of a \<open>SKUMapperGUI\<close> that resolution reads: the two tables and the check box
  ``Handle Combo Products''.
\<close>

record mapper_gui =
  gui_mapping_data :: "sku_mapping list"
  gui_combo_mapping :: "(string \<times> string list) list"
  handle_combos :: bool

datatype py_error =
  KeyError string
| TypeError
| OverflowError
| Float_quantity
| No_sku_column platform

section \<open>Text helpers\<close>

text \<open>\<open>str.upper\<close> and \<open>str.lower\<close> on ASCII text, \<open>' '.join\<close>, and the substring test \<open>in\<close>.\<close>

definition upper_char :: "char \<Rightarrow> char" where
  "upper_char c =
     (case map_of (zip ''abcdefghijklmnopqrstuvwxyz'' ''ABCDEFGHIJKLMNOPQRSTUVWXYZ'') c of
        Some u \<Rightarrow> u
      | None \<Rightarrow> c)"

definition lower_char :: "char \<Rightarrow> char" where
  "lower_char c =
     (case map_of (zip ''ABCDEFGHIJKLMNOPQRSTUVWXYZ'' ''abcdefghijklmnopqrstuvwxyz'') c of
        Some l \<Rightarrow> l
      | None \<Rightarrow> c)"

definition upper :: "string \<Rightarrow> string" where
  "upper s = map upper_char s"

definition lower :: "string \<Rightarrow> string" where
  "lower s = map lower_char s"

fun join_space :: "string list \<Rightarrow> string" where
  "join_space [] = []"
| "join_space [x] = x"
| "join_space (x # y # ys) = x @ '' '' @ join_space (y # ys)"

fun starts_with :: "string \<Rightarrow> string \<Rightarrow> bool" where
  "starts_with [] s = True"
| "starts_with (p # ps) [] = False"
| "starts_with (p # ps) (c # cs) = (p = c \<and> starts_with ps cs)"

fun contains :: "string \<Rightarrow> string \<Rightarrow> bool" where
  "contains needle [] = (needle = [])"
| "contains needle (c # cs) = (starts_with needle (c # cs) \<or> contains needle cs)"

section \<open>Platform detection\<close>

definition detect_platform :: "string list \<Rightarrow> platform" where
  "detect_platform cols =
     (let columns_str = upper (join_space cols) in
      if contains ''FNSKU'' columns_str \<or> contains ''FULFILLMENT CENTER'' columns_str
        then Amazon
      else if contains ''ORDER ITEM ID'' columns_str \<or> contains ''FSN'' columns_str
        then Flipkart
      else if contains ''SUB ORDER NO'' columns_str then Meesho
      else Unknown)"

definition get_sku_column :: "string list \<Rightarrow> platform \<Rightarrow> string option" where
  "get_sku_column cols p =
     (if p = Amazon then
        (if ''FNSKU'' \<in> set cols then Some ''FNSKU''
         else if ''MSKU'' \<in> set cols then Some ''MSKU''
         else None)
      else if p \<in> {Flipkart, Meesho} then
        (if ''SKU'' \<in> set cols then Some ''SKU'' else None)
      else None)"

section \<open>SKU resolution\<close>

datatype outcome = Combo "string list" | Single string | Not_found

text \<open>\<open>WMSProcessor.map_sku_to_msku\<close>: the combo dictionary first, then the mapping sheet
  filtered by the column \<open>sku\<close>, of which the first row counts.\<close>

definition map_sku_to_msku :: "wms \<Rightarrow> string \<Rightarrow> outcome" where
  "map_sku_to_msku w s =
     (case map_of (combo_mapping w) s of
        Some components \<Rightarrow> Combo components
      | None \<Rightarrow>
          (case filter (\<lambda>r. m_sku r = s) (mapping_data w) of
             [] \<Rightarrow> Not_found
           | r # _ \<Rightarrow> Single (m_msku r)))"

text \<open>\<open>SKUMapperGUI.map_sku_to_msku\<close>: the same, with the combo lookup behind the check box.\<close>

definition gui_map_sku_to_msku :: "mapper_gui \<Rightarrow> string \<Rightarrow> outcome" where
  "gui_map_sku_to_msku g s =
     (case (if handle_combos g then map_of (gui_combo_mapping g) s else None) of
        Some components \<Rightarrow> Combo components
      | None \<Rightarrow>
          (case filter (\<lambda>r. m_sku r = s) (gui_mapping_data g) of
             [] \<Rightarrow> Not_found
           | r # _ \<Rightarrow> Single (m_msku r)))"

text \<open>\<open>DatabaseService.map_sku_to_msku\<close>: \<open>filter_by(sku=sku).first()\<close> on the mapping table.\<close>

definition db_map_sku_to_msku :: "sku_mapping list \<Rightarrow> string \<Rightarrow> string option" where
  "db_map_sku_to_msku table s =
     (case List.find (\<lambda>r. m_sku r = s) table of Some r \<Rightarrow> Some (m_msku r) | None \<Rightarrow> None)"

text \<open>
  The resolver as the specification words it (section 4.2): a single outcome needs a
  mapping row of the SKU for the detected platform. It is compared with the code below.
\<close>

definition matches_for_platform :: "wms \<Rightarrow> platform \<Rightarrow> string \<Rightarrow> sku_mapping list" where
  "matches_for_platform w p s =
     filter (\<lambda>r. m_sku r = s \<and> m_platform r = platform_name p) (mapping_data w)"

definition spec_resolve :: "wms \<Rightarrow> platform \<Rightarrow> string \<Rightarrow> outcome" where
  "spec_resolve w p s =
     (case map_of (combo_mapping w) s of
        Some components \<Rightarrow> Combo components
      | None \<Rightarrow>
          (case matches_for_platform w p s of
             [] \<Rightarrow> Not_found
           | r # _ \<Rightarrow> Single (m_msku r)))"

section \<open>Expanding a sales file\<close>

text \<open>
  What \<open>process_sales_file\<close> accumulates: the output rows and the dictionary
  \<open>inventory_changes\<close> from MSKU to the quantity sold, kept in insertion order.
\<close>

record acc =
  processed_rows :: "series list"
  inventory_changes :: "(string \<times> int) list"

definition add_change :: "string \<Rightarrow> int \<Rightarrow> (string \<times> int) list \<Rightarrow> (string \<times> int) list" where
  "add_change m q changes =
     (case map_of changes m of
        Some c \<Rightarrow> AList.update m (c + q) changes
      | None \<Rightarrow> AList.update m q changes)"

text \<open>\<open>quantity <= 0\<close>: false on \<open>NaN\<close>, a \<open>TypeError\<close> on text.\<close>

fun le_zero :: "cell \<Rightarrow> py_error + bool" where
  "le_zero (Num n) = Inr (n \<le> 0)"
| "le_zero NaN = Inr False"
| "le_zero (Str s) = Inl TypeError"

text \<open>
  The quantity where it is added to a total, and the stock where a sale is taken from it.
  Quantities and stocks are integers here. A blank cell (\<open>NaN\<close>) is a float that the
  program carries on into the lines, the totals and the ledger without raising; that run
  leaves the integers and is not followed: it ends as \<open>Float_quantity\<close>, so every result
  \<open>Inr\<close> below is the result of a run on integers.
\<close>

fun as_int :: "cell \<Rightarrow> py_error + int" where
  "as_int (Num n) = Inr n"
| "as_int NaN = Inl Float_quantity"
| "as_int (Str s) = Inl TypeError"

text \<open>A numeric SKU cell equals no key of the text-keyed tables.\<close>

fun resolve_cell :: "wms \<Rightarrow> cell \<Rightarrow> outcome" where
  "resolve_cell w (Str s) = map_sku_to_msku w s"
| "resolve_cell w c = Not_found"

definition combo_line :: "platform \<Rightarrow> series \<Rightarrow> cell \<Rightarrow> string \<Rightarrow> int \<Rightarrow> series" where
  "combo_line p row sku component_msku q =
     row_set ''Platform'' (Str (platform_name p))
       (row_set ''Product_Type'' (Str ''Combo_Component'')
         (row_set ''Quantity'' (Num q)
           (row_set ''MSKU'' (Str component_msku)
             (row_set ''Original_SKU'' sku row))))"

definition single_line :: "platform \<Rightarrow> series \<Rightarrow> string \<Rightarrow> series" where
  "single_line p row m =
     row_set ''Platform'' (Str (platform_name p))
       (row_set ''Product_Type'' (Str ''Single'')
         (row_set ''MSKU'' (Str m) row))"

definition unknown_line :: "platform \<Rightarrow> series \<Rightarrow> series" where
  "unknown_line p row =
     row_set ''Platform'' (Str (platform_name p))
       (row_set ''Product_Type'' (Str ''Unknown'')
         (row_set ''MSKU'' (Str ''Mapping Not Found'') row))"

text \<open>The loop over the components of a combo.\<close>

fun combo_rows ::
  "platform \<Rightarrow> series \<Rightarrow> cell \<Rightarrow> cell \<Rightarrow> string list \<Rightarrow> acc \<Rightarrow> py_error + acc" where
  "combo_rows p row sku quantity [] a = Inr a"
| "combo_rows p row sku quantity (c # cs) a =
     (case as_int quantity of
        Inl e \<Rightarrow> Inl e
      | Inr q \<Rightarrow>
          combo_rows p row sku quantity cs
            \<lparr>processed_rows = processed_rows a @ [combo_line p row sku c q],
             inventory_changes = add_change c q (inventory_changes a)\<rparr>)"

definition emit_lines ::
  "wms \<Rightarrow> platform \<Rightarrow> series \<Rightarrow> cell \<Rightarrow> cell \<Rightarrow> acc \<Rightarrow> py_error + acc" where
  "emit_lines w p row sku quantity a =
     (case resolve_cell w sku of
        Combo components \<Rightarrow> combo_rows p row sku quantity components a
      | Single m \<Rightarrow>
          (case as_int quantity of
             Inl e \<Rightarrow> Inl e
           | Inr q \<Rightarrow>
               Inr \<lparr>processed_rows = processed_rows a @ [single_line p row m],
                    inventory_changes = add_change m q (inventory_changes a)\<rparr>)
      | Not_found \<Rightarrow>
          Inr (a\<lparr>processed_rows := processed_rows a @ [unknown_line p row]\<rparr>))"

text \<open>
  The body of the loop of \<open>WMSProcessor.process_sales_file\<close> for one row: \<open>Inr a\<close> with
  the accumulator unchanged is \<open>continue\<close>, \<open>Inl\<close> an exception, which ends the file.
\<close>

definition process_row ::
  "wms \<Rightarrow> platform \<Rightarrow> string \<Rightarrow> series \<Rightarrow> acc \<Rightarrow> py_error + acc" where
  "process_row w p sku_column row a =
     (case map_of row sku_column of
        None \<Rightarrow> Inl (KeyError sku_column)
      | Some sku \<Rightarrow>
          (let quantity = row_get row ''Quantity'' (Num 1) in
           if sku = NaN then Inr a
           else
             (case le_zero quantity of
                Inl e \<Rightarrow> Inl e
              | Inr skip \<Rightarrow>
                  if skip then Inr a
                  else if p = Amazon \<and>
                      (map_of row ''Event Type'' \<noteq> Some (Str ''Shipments'') \<or>
                       map_of row ''Disposition'' \<noteq> Some (Str ''SELLABLE''))
                    then Inr a
                  else emit_lines w p row sku quantity a)))"

fun process_rows ::
  "wms \<Rightarrow> platform \<Rightarrow> string \<Rightarrow> series list \<Rightarrow> acc \<Rightarrow> py_error + acc" where
  "process_rows w p sku_column [] a = Inr a"
| "process_rows w p sku_column (row # rest) a =
     (case process_row w p sku_column row a of
        Inl e \<Rightarrow> Inl e
      | Inr a' \<Rightarrow> process_rows w p sku_column rest a')"

text \<open>
  \<open>pd.DataFrame(processed_rows)\<close>: the columns of the frame are the labels of the rows in
  the order in which they first appear, and a row that lacks a label has \<open>NaN\<close> in that
  column. pandas holds a numeric column with such a blank in floating point; the model keeps
  the integer that the cell stands for.
\<close>

definition union_labels :: "series list \<Rightarrow> string list" where
  "union_labels rows =
     foldl (\<lambda>cols label. if label \<in> set cols then cols else cols @ [label]) []
       (concat (map (map fst) rows))"

definition frame_of_rows :: "series list \<Rightarrow> dataframe" where
  "frame_of_rows rows =
     (let cols = union_labels rows in
      \<lparr>df_columns = cols,
       df_rows = map (\<lambda>row. map (\<lambda>label. (label, row_get row label NaN)) cols) rows\<rparr>)"

text \<open>What the method returns when nothing was raised: the output frame and the changes.\<close>

record file_result =
  result_df :: dataframe
  result_changes :: "(string \<times> int) list"

definition finish :: "acc \<Rightarrow> file_result" where
  "finish a =
     \<lparr>result_df = frame_of_rows (processed_rows a), result_changes = inventory_changes a\<rparr>"

text \<open>
  \<open>WMSProcessor.process_sales_file\<close> on the frame that \<open>read_csv\<close> returned. \<open>Inl\<close> is
  the result \<open>(None, {}, message)\<close>, \<open>Inr\<close> the output frame and the changes.
\<close>

definition process_sales_file :: "wms \<Rightarrow> dataframe \<Rightarrow> py_error + file_result" where
  "process_sales_file w df =
     (let p = detect_platform (df_columns df) in
      case get_sku_column (df_columns df) p of
        None \<Rightarrow> Inl (No_sku_column p)
      | Some sku_column \<Rightarrow>
          (case process_rows w p sku_column (df_rows df)
                  \<lparr>processed_rows = [], inventory_changes = []\<rparr> of
             Inl e \<Rightarrow> Inl e
           | Inr a \<Rightarrow> Inr (finish a)))"

subsection \<open>The desktop variant\<close>

text \<open>
  \<open>SKUMapperGUI.process_sales_file\<close> has the same loop without the Amazon filter and
  without the column \<open>Platform\<close>.
\<close>

fun gui_resolve_cell :: "mapper_gui \<Rightarrow> cell \<Rightarrow> outcome" where
  "gui_resolve_cell g (Str s) = gui_map_sku_to_msku g s"
| "gui_resolve_cell g c = Not_found"

definition gui_combo_line :: "series \<Rightarrow> cell \<Rightarrow> string \<Rightarrow> int \<Rightarrow> series" where
  "gui_combo_line row sku component_msku q =
     row_set ''Product_Type'' (Str ''Combo_Component'')
       (row_set ''Quantity'' (Num q)
         (row_set ''MSKU'' (Str component_msku)
           (row_set ''Original_SKU'' sku row)))"

definition gui_single_line :: "series \<Rightarrow> string \<Rightarrow> series" where
  "gui_single_line row m =
     row_set ''Product_Type'' (Str ''Single'') (row_set ''MSKU'' (Str m) row)"

definition gui_unknown_line :: "series \<Rightarrow> series" where
  "gui_unknown_line row =
     row_set ''Product_Type'' (Str ''Unknown'') (row_set ''MSKU'' (Str ''Mapping Not Found'') row)"

fun gui_combo_rows ::
  "series \<Rightarrow> cell \<Rightarrow> cell \<Rightarrow> string list \<Rightarrow> acc \<Rightarrow> py_error + acc" where
  "gui_combo_rows row sku quantity [] a = Inr a"
| "gui_combo_rows row sku quantity (c # cs) a =
     (case as_int quantity of
        Inl e \<Rightarrow> Inl e
      | Inr q \<Rightarrow>
          gui_combo_rows row sku quantity cs
            \<lparr>processed_rows = processed_rows a @ [gui_combo_line row sku c q],
             inventory_changes = add_change c q (inventory_changes a)\<rparr>)"

definition gui_emit_lines ::
  "mapper_gui \<Rightarrow> series \<Rightarrow> cell \<Rightarrow> cell \<Rightarrow> acc \<Rightarrow> py_error + acc" where
  "gui_emit_lines g row sku quantity a =
     (case gui_resolve_cell g sku of
        Combo components \<Rightarrow> gui_combo_rows row sku quantity components a
      | Single m \<Rightarrow>
          (case as_int quantity of
             Inl e \<Rightarrow> Inl e
           | Inr q \<Rightarrow>
               Inr \<lparr>processed_rows = processed_rows a @ [gui_single_line row m],
                    inventory_changes = add_change m q (inventory_changes a)\<rparr>)
      | Not_found \<Rightarrow>
          Inr (a\<lparr>processed_rows := processed_rows a @ [gui_unknown_line row]\<rparr>))"

definition gui_process_row ::
  "mapper_gui \<Rightarrow> string \<Rightarrow> series \<Rightarrow> acc \<Rightarrow> py_error + acc" where
  "gui_process_row g sku_column row a =
     (case map_of row sku_column of
        None \<Rightarrow> Inl (KeyError sku_column)
      | Some sku \<Rightarrow>
          (let quantity = row_get row ''Quantity'' (Num 1) in
           if sku = NaN then Inr a
           else
             (case le_zero quantity of
                Inl e \<Rightarrow> Inl e
              | Inr skip \<Rightarrow>
                  if skip then Inr a else gui_emit_lines g row sku quantity a)))"

fun gui_process_rows ::
  "mapper_gui \<Rightarrow> string \<Rightarrow> series list \<Rightarrow> acc \<Rightarrow> py_error + acc" where
  "gui_process_rows g sku_column [] a = Inr a"
| "gui_process_rows g sku_column (row # rest) a =
     (case gui_process_row g sku_column row a of
        Inl e \<Rightarrow> Inl e
      | Inr a' \<Rightarrow> gui_process_rows g sku_column rest a')"

text \<open>
  The expansion part of \<open>SKUMapperGUI.process_sales_file\<close>, up to the output frame and
  the changes it hands to the inventory log; writing the files is left out.
\<close>

definition gui_process_sales_file ::
  "mapper_gui \<Rightarrow> dataframe \<Rightarrow> py_error + file_result" where
  "gui_process_sales_file g df =
     (let p = detect_platform (df_columns df) in
      case get_sku_column (df_columns df) p of
        None \<Rightarrow> Inl (No_sku_column p)
      | Some sku_column \<Rightarrow>
          (case gui_process_rows g sku_column (df_rows df)
                  \<lparr>processed_rows = [], inventory_changes = []\<rparr> of
             Inl e \<Rightarrow> Inl e
           | Inr a \<Rightarrow> Inr (finish a)))"

section \<open>Inventory reconciliation\<close>

subsection \<open>The spreadsheet ledger of the web application\<close>

datatype warning =
  Negative_stock string int
| Low_stock string int
| Msku_not_found string

text \<open>The dictionary that \<open>WMSProcessor.update_inventory\<close> returns.\<close>

datatype update_report =
  No_changes
| No_columns
| Success (updated_items: nat) (warnings: "warning list")

definition find_msku_column :: "string list \<Rightarrow> string option" where
  "find_msku_column cols =
     (if ''msku'' \<in> set cols then Some ''msku''
      else List.find (\<lambda>col. contains ''msku'' (lower col)) cols)"

definition find_quantity_column :: "string list \<Rightarrow> string option" where
  "find_quantity_column cols =
     (if ''Opening Stock'' \<in> set cols then Some ''Opening Stock''
      else List.find
             (\<lambda>col. list_ex (\<lambda>word. contains word (lower col)) [''stock'', ''quantity'', ''qty''])
             cols)"

text \<open>The state of the loop over \<open>inventory_changes.items()\<close>.\<close>

record ledger_state =
  ledger :: "series list"
  updated :: nat
  warned :: "warning list"

text \<open>\<open>self.current_inventory[msku_column] == msku\<close> for one row.\<close>

definition msku_mask :: "string \<Rightarrow> string \<Rightarrow> series \<Rightarrow> bool" where
  "msku_mask msku_column msku row = (map_of row msku_column = Some (Str msku))"

text \<open>
  \<open>current_qty - quantity_sold\<close> on the first row of the mask. The quantity column was
  made numeric when the sheet was loaded; a row without the column, a text or a blank there
  would raise, or leave the integers.
\<close>

definition current_qty :: "string \<Rightarrow> series \<Rightarrow> py_error + int" where
  "current_qty quantity_column row =
     (case map_of row quantity_column of
        None \<Rightarrow> Inl (KeyError quantity_column)
      | Some c \<Rightarrow> as_int c)"

definition stock_warnings :: "string \<Rightarrow> int \<Rightarrow> warning list" where
  "stock_warnings msku new_qty =
     (if new_qty < 0 then [Negative_stock msku new_qty]
      else if new_qty < 5 then [Low_stock msku new_qty]
      else [])"

text \<open>
  The stock column of the loaded sheet is a pandas \<open>int64\<close> column, so \<open>current_qty\<close> is
  a 64-bit integer: the subtraction wraps around at 64 bits, and NumPy refuses a quantity
  sold that does not fit 64 bits with \<open>OverflowError\<close>.
\<close>

definition in_int64 :: "int \<Rightarrow> bool" where
  "in_int64 x \<longleftrightarrow> - (2 ^ 63) \<le> x \<and> x < 2 ^ 63"

definition wrap64 :: "int \<Rightarrow> int" where
  "wrap64 x = (x + 2 ^ 63) mod 2 ^ 64 - 2 ^ 63"

definition update_one ::
  "string \<Rightarrow> string \<Rightarrow> string \<times> int \<Rightarrow> ledger_state \<Rightarrow> py_error + ledger_state" where
  "update_one msku_column quantity_column change st =
     (case change of (msku, quantity_sold) \<Rightarrow>
        (case List.find (msku_mask msku_column msku) (ledger st) of
           Some first_row \<Rightarrow>
             (case current_qty quantity_column first_row of
                Inl e \<Rightarrow> Inl e
              | Inr qty \<Rightarrow>
                  if \<not> in_int64 quantity_sold then Inl OverflowError
                  else
                    (let new_qty = wrap64 (qty - quantity_sold) in
                     Inr \<lparr>ledger =
                            map (\<lambda>row. if msku_mask msku_column msku row
                                        then row_set quantity_column (Num new_qty) row
                                        else row)
                              (ledger st),
                          updated = updated st + 1,
                          warned = warned st @ stock_warnings msku new_qty\<rparr>))
         | None \<Rightarrow> Inr (st\<lparr>warned := warned st @ [Msku_not_found msku]\<rparr>)))"

fun update_all ::
  "string \<Rightarrow> string \<Rightarrow> (string \<times> int) list \<Rightarrow> ledger_state \<Rightarrow> py_error + ledger_state" where
  "update_all msku_column quantity_column [] st = Inr st"
| "update_all msku_column quantity_column (change # rest) st =
     (case update_one msku_column quantity_column change st of
        Inl e \<Rightarrow> Inl e
      | Inr st' \<Rightarrow> update_all msku_column quantity_column rest st')"

text \<open>
  \<open>WMSProcessor.update_inventory\<close>: the report and the processor with its inventory frame
  after the call. An exception (\<open>Inl\<close>) leaves the method; the state it leaves behind is
  not described.
\<close>

definition update_inventory ::
  "wms \<Rightarrow> (string \<times> int) list \<Rightarrow> py_error + (update_report \<times> wms)" where
  "update_inventory w changes =
     (if changes = [] then Inr (No_changes, w)
      else
        (case (find_msku_column (df_columns (current_inventory w)),
               find_quantity_column (df_columns (current_inventory w))) of
           (Some msku_column, Some quantity_column) \<Rightarrow>
             (case update_all msku_column quantity_column changes
                     \<lparr>ledger = df_rows (current_inventory w), updated = 0, warned = []\<rparr> of
                Inl e \<Rightarrow> Inl e
              | Inr st \<Rightarrow>
                  Inr (Success (updated st) (warned st),
                       w\<lparr>current_inventory :=
                            (current_inventory w)\<lparr>df_rows := ledger st\<rparr>\<rparr>))
         | _ \<Rightarrow> Inr (No_columns, w)))"

subsection \<open>The product table of the database service\<close>

text \<open>
  The columns of \<open>Product\<close> and \<open>InventoryMovement\<close> in \<open>database/models.py\<close>; times
  are counted in seconds.
\<close>

record product =
  p_id :: nat
  p_msku :: string
  product_name :: string
  opening_stock :: int
  current_stock :: int
  buffer_stock :: int
  created_at :: nat
  updated_at :: nat

record inventory_movement =
  mv_msku :: string
  movement_type :: string
  quantity_change :: int
  stock_before :: int
  stock_after :: int
  reference_id :: "string option"
  mv_notes :: "string option"

record database =
  products :: "product list"
  movements :: "inventory_movement list"

text \<open>
  The service works through \<open>db.session\<close>: the session sees its own writes at once, the
  database keeps them only from \<open>commit\<close> on, and \<open>rollback\<close> throws away every write
  since the last commit. A session is the tables as of the last commit together with the
  tables as the session sees them.
\<close>

record session =
  stored :: database
  current :: database

definition begin_session :: "database \<Rightarrow> session" where
  "begin_session db = \<lparr>stored = db, current = db\<rparr>"

definition rollback :: "session \<Rightarrow> session" where
  "rollback s = s\<lparr>current := stored s\<rparr>"


datatype db_message =
  Product_not_found string
| Updated string int int
| Error_updating

fun update_first :: "('a \<Rightarrow> bool) \<Rightarrow> ('a \<Rightarrow> 'a) \<Rightarrow> 'a list \<Rightarrow> 'a list" where
  "update_first P f [] = []"
| "update_first P f (x # xs) = (if P x then f x # xs else x # update_first P f xs)"

text \<open>
  \<open>DatabaseService.update_inventory\<close>. The reading of the clock is an argument, and so is
  \<open>fault\<close>: whether an exception is raised inside the \<open>try\<close> block, by the database engine
  or when the query flushes a pending record of the session that the database refuses. The
  handler rolls the session back and answers \<open>False\<close> with ``Error updating inventory''.
\<close>

definition db_update_inventory ::
  "bool \<Rightarrow> nat \<Rightarrow> string \<Rightarrow> int \<Rightarrow> string \<Rightarrow> string option \<Rightarrow> string option \<Rightarrow> session
    \<Rightarrow> (bool \<times> db_message) \<times> session" where
  "db_update_inventory fault now msku change mtype ref note s =
     (if fault then ((False, Error_updating), rollback s)
      else
        (case List.find (\<lambda>p. p_msku p = msku) (products (current s)) of
           None \<Rightarrow> ((False, Product_not_found msku), s)
         | Some found \<Rightarrow>
             (let before = current_stock found;
                  after = before + change
              in ((True, Updated msku before after),
                  s\<lparr>current :=
                      \<lparr>products =
                         update_first (\<lambda>p. p_msku p = msku)
                           (\<lambda>p. p\<lparr>current_stock := after, updated_at := now\<rparr>)
                           (products (current s)),
                       movements =
                         movements (current s) @
                           [\<lparr>mv_msku = msku, movement_type = mtype, quantity_change = change,
                             stock_before = before, stock_after = after,
                             reference_id = ref, mv_notes = note\<rparr>]\<rparr>\<rparr>))))"

text \<open>
  The loop ``Apply inventory changes'' of \<open>process_sales_file_to_db\<close>: every total is
  applied negated, and a refusal is printed. The loop runs in one session, which is
  committed after it. The result is the session and the lines printed; \<open>faults\<close> and
  \<open>clock\<close> say for the update of each MSKU whether it raises and what the clock reads.
\<close>

fun db_apply_changes ::
  "(string \<Rightarrow> bool) \<Rightarrow> (string \<Rightarrow> nat) \<Rightarrow> string \<Rightarrow> string \<Rightarrow> (string \<times> int) list
    \<Rightarrow> session \<times> db_message list \<Rightarrow> session \<times> db_message list" where
  "db_apply_changes faults clock batch_id file_name [] st = st"
| "db_apply_changes faults clock batch_id file_name ((msku, total_quantity) # rest) (s, out) =
     (case db_update_inventory (faults msku) (clock msku) msku (- total_quantity) ''Sale''
             (Some batch_id) (Some (''Sales from '' @ file_name)) s of
        ((success, message), s') \<Rightarrow>
          db_apply_changes faults clock batch_id file_name rest
            (s', if success then out else out @ [message]))"

section \<open>Worked examples\<close>

text \<open>
  A small instance: a bundle \<open>KIT1\<close> of \<open>M1\<close> and \<open>M2\<close> that also has a row in the
  mapping sheet, a SKU mapped for one platform only, a SKU mapped to different MSKUs on two
  platforms, and a ledger of two products.
\<close>

definition ex_mapping :: "sku_mapping list" where
  "ex_mapping =
     [\<lparr>m_sku = ''KIT1'', m_msku = ''M9'', m_platform = ''Amazon''\<rparr>,
      \<lparr>m_sku = ''X1'', m_msku = ''M1'', m_platform = ''Flipkart''\<rparr>,
      \<lparr>m_sku = ''X2'', m_msku = ''M3'', m_platform = ''Flipkart''\<rparr>,
      \<lparr>m_sku = ''X2'', m_msku = ''M4'', m_platform = ''Amazon''\<rparr>]"

definition ex_inventory :: dataframe where
  "ex_inventory =
     \<lparr>df_columns = [''Product Name'', ''msku'', ''Opening Stock'', ''Buffer Stock''],
      df_rows =
        [[(''Product Name'', Str ''Widget''), (''msku'', Str ''M1''),
          (''Opening Stock'', Num 85), (''Buffer Stock'', Num 90)],
         [(''Product Name'', Str ''Gadget''), (''msku'', Str ''M2''),
          (''Opening Stock'', Num 6), (''Buffer Stock'', Num 2)]]\<rparr>"

definition ex_wms :: wms where
  "ex_wms =
     \<lparr>mapping_data = ex_mapping,
      combo_mapping = [(''KIT1'', [''M1'', ''M2''])],
      current_inventory = ex_inventory\<rparr>"

definition ex_gui :: "bool \<Rightarrow> mapper_gui" where
  "ex_gui flag =
     \<lparr>gui_mapping_data = ex_mapping,
      gui_combo_mapping = [(''KIT1'', [''M1'', ''M2''])],
      handle_combos = flag\<rparr>"

text \<open>Rewriting the platform of every mapping row, to say that resolution does not read it.\<close>

definition relabel_rows :: "(string \<Rightarrow> string) \<Rightarrow> sku_mapping list \<Rightarrow> sku_mapping list" where
  "relabel_rows f table = map (\<lambda>r. r\<lparr>m_platform := f (m_platform r)\<rparr>) table"

definition relabel :: "(string \<Rightarrow> string) \<Rightarrow> wms \<Rightarrow> wms" where
  "relabel f w = w\<lparr>mapping_data := relabel_rows f (mapping_data w)\<rparr>"

definition gui_relabel :: "(string \<Rightarrow> string) \<Rightarrow> mapper_gui \<Rightarrow> mapper_gui" where
  "gui_relabel f g = g\<lparr>gui_mapping_data := relabel_rows f (gui_mapping_data g)\<rparr>"

text \<open>
  Sales files: a Meesho file with a bundle row, a row without SKU, a row of quantity zero and
  an unmapped SKU; an Amazon file with a sellable and a damaged shipment; and two files
  without the column \<open>Quantity\<close>.
\<close>

definition ex_meesho :: dataframe where
  "ex_meesho =
     \<lparr>df_columns = [''Sub Order No'', ''SKU'', ''Quantity''],
      df_rows =
        [[(''Sub Order No'', Str ''S1''), (''SKU'', Str ''KIT1''), (''Quantity'', Num 3)],
         [(''Sub Order No'', Str ''S2''), (''SKU'', NaN), (''Quantity'', Num 2)],
         [(''Sub Order No'', Str ''S3''), (''SKU'', Str ''X1''), (''Quantity'', Num 0)],
         [(''Sub Order No'', Str ''S4''), (''SKU'', Str ''ZZZ999''), (''Quantity'', Num 5)]]\<rparr>"

definition ex_amazon :: dataframe where
  "ex_amazon =
     \<lparr>df_columns = [''FNSKU'', ''Quantity'', ''Event Type'', ''Disposition''],
      df_rows =
        [[(''FNSKU'', Str ''X1''), (''Quantity'', Num 2),
          (''Event Type'', Str ''Shipments''), (''Disposition'', Str ''SELLABLE'')],
         [(''FNSKU'', Str ''X1''), (''Quantity'', Num 4),
          (''Event Type'', Str ''Shipments''), (''Disposition'', Str ''DAMAGED'')]]\<rparr>"

definition ex_plain :: dataframe where
  "ex_plain =
     \<lparr>df_columns = [''Sub Order No'', ''SKU''],
      df_rows =
        [[(''Sub Order No'', Str ''S1''), (''SKU'', Str ''X1'')],
         [(''Sub Order No'', Str ''S2''), (''SKU'', Str ''KIT1'')]]\<rparr>"

definition ex_amazon_plain :: dataframe where
  "ex_amazon_plain =
     \<lparr>df_columns = [''FNSKU'', ''Event Type'', ''Disposition''],
      df_rows =
        [[(''FNSKU'', Str ''X1''), (''Event Type'', Str ''Returns''),
          (''Disposition'', Str ''SELLABLE'')]]\<rparr>"

text \<open>Reading the change dictionary: \<open>inventory_changes.get(m, 0)\<close>, and the entry of a result.\<close>

definition sold :: "(string \<times> int) list \<Rightarrow> string \<Rightarrow> int" where
  "sold changes m = (case map_of changes m of Some q \<Rightarrow> q | None \<Rightarrow> 0)"

definition delta_entry :: "py_error + file_result \<Rightarrow> string \<Rightarrow> int option" where
  "delta_entry r m = (case r of Inl e \<Rightarrow> None | Inr res \<Rightarrow> map_of (result_changes res) m)"

text \<open>The cell under a label in the \<open>i\<close>-th row of the output frame of a result; \<open>None\<close>
  when the frame has no such row or column.\<close>

definition output_cell :: "py_error + file_result \<Rightarrow> nat \<Rightarrow> string \<Rightarrow> cell option" where
  "output_cell r i label =
     (case r of
        Inl e \<Rightarrow> None
      | Inr res \<Rightarrow>
          if i < length (df_rows (result_df res)) then map_of (df_rows (result_df res) ! i) label
          else None)"

text \<open>Observations on the ledger: the MSKU a warning is about, the quantity cell of the first
  ledger row of an MSKU, and the stock of a product in the database.\<close>

fun warning_msku :: "warning \<Rightarrow> string" where
  "warning_msku (Negative_stock m n) = m"
| "warning_msku (Low_stock m n) = m"
| "warning_msku (Msku_not_found m) = m"

definition stock_of :: "string \<Rightarrow> string \<Rightarrow> series list \<Rightarrow> string \<Rightarrow> cell option" where
  "stock_of msku_column quantity_column rows m =
     (case List.find (msku_mask msku_column m) rows of
        None \<Rightarrow> None
      | Some r \<Rightarrow> map_of r quantity_column)"

definition db_stock :: "database \<Rightarrow> string \<Rightarrow> int option" where
  "db_stock db m = map_option current_stock (List.find (\<lambda>p. p_msku p = m) (products db))"

text \<open>A product table with the two products of the ledger.\<close>

definition ex_db :: database where
  "ex_db =
     \<lparr>products =
        [\<lparr>p_id = 1, p_msku = ''M1'', product_name = ''Widget'', opening_stock = 85,
          current_stock = 85, buffer_stock = 90, created_at = 100, updated_at = 100\<rparr>,
         \<lparr>p_id = 2, p_msku = ''M2'', product_name = ''Gadget'', opening_stock = 6,
          current_stock = 6, buffer_stock = 2, created_at = 100, updated_at = 100\<rparr>],
      movements = []\<rparr>"

text \<open>
  The classification of a new stock level as the specification words it (section 4.4), with
  the buffer of the product as the threshold of a low stock. It is compared with the code
  below.
\<close>

datatype severity = Negative | Low | Normal

definition spec_classify :: "int \<Rightarrow> int \<Rightarrow> severity" where
  "spec_classify new_stock buffer =
     (if new_stock < 0 then Negative else if new_stock < buffer then Low else Normal)"

text \<open>A batch of changes with an MSKU that the ledger does not know, and the ledger after it.\<close>

definition ex_changes :: "(string \<times> int) list" where
  "ex_changes = [(''M1'', 3), (''ZZZ999'', 1), (''M2'', 3)]"

definition ex_inventory_after :: dataframe where
  "ex_inventory_after =
     \<lparr>df_columns = [''Product Name'', ''msku'', ''Opening Stock'', ''Buffer Stock''],
      df_rows =
        [[(''Product Name'', Str ''Widget''), (''msku'', Str ''M1''),
          (''Opening Stock'', Num 82), (''Buffer Stock'', Num 90)],
         [(''Product Name'', Str ''Gadget''), (''msku'', Str ''M2''),
          (''Opening Stock'', Num 3), (''Buffer Stock'', Num 2)]]\<rparr>"

text \<open>The report and the ledger of the result of an update.\<close>

definition report_of :: "py_error + update_report \<times> wms \<Rightarrow> update_report option" where
  "report_of r = (case r of Inl e \<Rightarrow> None | Inr (rep, w) \<Rightarrow> Some rep)"

definition ledger_of :: "py_error + update_report \<times> wms \<Rightarrow> series list" where
  "ledger_of r = (case r of Inl e \<Rightarrow> [] | Inr (rep, w) \<Rightarrow> df_rows (current_inventory w))"

text \<open>
  What an update may change. Between a ledger row and the row at its place after a batch:
  every cell outside the quantity column is the same, and the whole row is the same when its
  MSKU is no key of the batch. Between a product and the product at its place afterwards:
  every column but the current stock and the time of the last update is the same, and the
  whole product is the same when its MSKU is no key.
\<close>

definition row_frame :: "string \<Rightarrow> string \<Rightarrow> string set \<Rightarrow> series \<Rightarrow> series \<Rightarrow> bool" where
  "row_frame msku_column quantity_column keys r r' \<longleftrightarrow>
     (\<forall>col. col \<noteq> quantity_column \<longrightarrow> map_of r' col = map_of r col) \<and>
     ((\<forall>k \<in> keys. \<not> msku_mask msku_column k r) \<longrightarrow> r' = r)"

definition product_frame :: "string set \<Rightarrow> product \<Rightarrow> product \<Rightarrow> bool" where
  "product_frame keys p p' \<longleftrightarrow>
     p' = p\<lparr>current_stock := current_stock p', updated_at := updated_at p'\<rparr> \<and>
     (p_msku p \<notin> keys \<longrightarrow> p' = p)"

text \<open>
  Well-typed input: a ledger whose stock column holds integers in every row, as the loader
  leaves it, and a sales file whose rows have a cell in the SKU column and an integer
  quantity or none. On such input the programs raise nothing, as shown below.
\<close>

fun is_int_cell :: "cell option \<Rightarrow> bool" where
  "is_int_cell (Some (Num n)) = True"
| "is_int_cell c = False"

definition numeric_column :: "string \<Rightarrow> series list \<Rightarrow> bool" where
  "numeric_column quantity_column rows =
     list_all (\<lambda>r. is_int_cell (map_of r quantity_column)) rows"

definition typed_rows :: "string \<Rightarrow> series list \<Rightarrow> bool" where
  "typed_rows sku_column rows =
     list_all
       (\<lambda>r. map_of r sku_column \<noteq> None \<and>
            (map_of r ''Quantity'' = None \<or> is_int_cell (map_of r ''Quantity'')))
       rows"

text \<open>
  A ledger whose only product stands one above the least 64-bit integer, and a batch in which
  the update of \<open>M2\<close> raises.
\<close>

definition ex_wms_edge :: wms where
  "ex_wms_edge =
     \<lparr>mapping_data = ex_mapping,
      combo_mapping = [(''KIT1'', [''M1'', ''M2''])],
      current_inventory =
        \<lparr>df_columns = [''Product Name'', ''msku'', ''Opening Stock'', ''Buffer Stock''],
         df_rows =
           [[(''Product Name'', Str ''Widget''), (''msku'', Str ''M1''),
             (''Opening Stock'', Num (- 9223372036854775807)), (''Buffer Stock'', Num 90)]]\<rparr>\<rparr>"


section \<open>Properties of resolution\<close>

lemma filter_Nil_find: "(filter P xs = []) = (List.find P xs = None)"
  by (induction xs) auto

lemma filter_Cons_find: "filter P xs = r # rs \<Longrightarrow> List.find P xs = Some r"
  by (induction xs) (auto split: if_splits)

lemma key_has_value: "k \<in> fst ` set al \<Longrightarrow> \<exists>v. map_of al k = Some v"
  by (metis map_of_eq_None_iff not_Some_eq)

lemma map_sku_to_msku_combo:
  "map_of (combo_mapping w) s = Some cs \<Longrightarrow> map_sku_to_msku w s = Combo cs"
  by (simp add: map_sku_to_msku_def)

lemma gui_map_sku_to_msku_combo:
  "handle_combos g \<Longrightarrow> map_of (gui_combo_mapping g) s = Some cs \<Longrightarrow>
   gui_map_sku_to_msku g s = Combo cs"
  by (simp add: gui_map_sku_to_msku_def)

text \<open>
  Claim C1, as amended. A SKU that is a key of the combo dictionary and has a row in the
  mapping sheet resolves to the combo, never to a single item: always in the web processor,
  and in the desktop mapper whenever its option ``Handle Combo Products'' is switched on.
\<close>

theorem combo_precedence:
  "(s \<in> fst ` set (combo_mapping w) \<and> s \<in> m_sku ` set (mapping_data w) \<longrightarrow>
      (\<exists>cs. map_of (combo_mapping w) s = Some cs \<and> map_sku_to_msku w s = Combo cs) \<and>
      (\<forall>m. map_sku_to_msku w s \<noteq> Single m)) \<and>
   (handle_combos g \<and> s \<in> fst ` set (gui_combo_mapping g) \<and>
    s \<in> m_sku ` set (gui_mapping_data g) \<longrightarrow>
      (\<exists>cs. map_of (gui_combo_mapping g) s = Some cs \<and> gui_map_sku_to_msku g s = Combo cs) \<and>
      (\<forall>m. gui_map_sku_to_msku g s \<noteq> Single m))"
proof (intro conjI impI)
  assume "s \<in> fst ` set (combo_mapping w) \<and> s \<in> m_sku ` set (mapping_data w)"
  then obtain cs where cs: "map_of (combo_mapping w) s = Some cs"
    using key_has_value by fastforce
  from cs show "\<exists>cs. map_of (combo_mapping w) s = Some cs \<and> map_sku_to_msku w s = Combo cs"
    by (simp add: map_sku_to_msku_combo)
  from cs show "\<forall>m. map_sku_to_msku w s \<noteq> Single m"
    by (simp add: map_sku_to_msku_combo)
next
  assume "handle_combos g \<and> s \<in> fst ` set (gui_combo_mapping g) \<and>
    s \<in> m_sku ` set (gui_mapping_data g)"
  then obtain cs where on: "handle_combos g" and cs: "map_of (gui_combo_mapping g) s = Some cs"
    using key_has_value by fastforce
  from on cs
  show "\<exists>cs. map_of (gui_combo_mapping g) s = Some cs \<and> gui_map_sku_to_msku g s = Combo cs"
    by (simp add: gui_map_sku_to_msku_combo)
  from on cs show "\<forall>m. gui_map_sku_to_msku g s \<noteq> Single m"
    by (simp add: gui_map_sku_to_msku_combo)
qed

text \<open>\<open>KIT1\<close> is in both tables and resolves to its two components in both programs.\<close>

theorem combo_precedence_witness:
  "''KIT1'' \<in> fst ` set (combo_mapping ex_wms) \<and>
   ''KIT1'' \<in> m_sku ` set (mapping_data ex_wms) \<and>
   map_sku_to_msku ex_wms ''KIT1'' = Combo [''M1'', ''M2''] \<and>
   handle_combos (ex_gui True) \<and>
   ''KIT1'' \<in> fst ` set (gui_combo_mapping (ex_gui True)) \<and>
   ''KIT1'' \<in> m_sku ` set (gui_mapping_data (ex_gui True)) \<and>
   gui_map_sku_to_msku (ex_gui True) ''KIT1'' = Combo [''M1'', ''M2'']"
  using combo_precedence [of "''KIT1''" ex_wms "ex_gui True"]
  by (simp add: ex_wms_def ex_gui_def ex_mapping_def)

text \<open>
  With the option switched off the desktop mapper skips the combo dictionary, and the same
  SKU, present in both tables, resolves to the single item of its mapping row.
\<close>

theorem combo_precedence_counterexample:
  "\<not> handle_combos (ex_gui False) \<and>
   ''KIT1'' \<in> fst ` set (gui_combo_mapping (ex_gui False)) \<and>
   ''KIT1'' \<in> m_sku ` set (gui_mapping_data (ex_gui False)) \<and>
   gui_map_sku_to_msku (ex_gui False) ''KIT1'' = Single ''M9''"
  by (simp add: ex_gui_def ex_mapping_def gui_map_sku_to_msku_def)

lemma filter_relabel:
  "filter (\<lambda>r. m_sku r = s) (relabel_rows f rs) = relabel_rows f (filter (\<lambda>r. m_sku r = s) rs)"
  by (induction rs) (auto simp: relabel_rows_def)

lemma find_relabel:
  "List.find (\<lambda>r. m_sku r = s) (relabel_rows f rs) =
   map_option (\<lambda>r. r\<lparr>m_platform := f (m_platform r)\<rparr>) (List.find (\<lambda>r. m_sku r = s) rs)"
  by (induction rs) (auto simp: relabel_rows_def)

lemma first_row_relabel:
  "(case filter (\<lambda>r. m_sku r = s) (relabel_rows f rs) of
      [] \<Rightarrow> Not_found | r # _ \<Rightarrow> Single (m_msku r)) =
   (case filter (\<lambda>r. m_sku r = s) rs of [] \<Rightarrow> Not_found | r # _ \<Rightarrow> Single (m_msku r))"
  unfolding filter_relabel
  by (cases "filter (\<lambda>r. m_sku r = s) rs") (simp_all add: relabel_rows_def)

lemma map_sku_to_msku_relabel: "map_sku_to_msku (relabel f w) s = map_sku_to_msku w s"
  by (simp add: map_sku_to_msku_def relabel_def first_row_relabel split: option.splits)

lemma gui_map_sku_to_msku_relabel:
  "gui_map_sku_to_msku (gui_relabel f g) s = gui_map_sku_to_msku g s"
  by (simp add: gui_map_sku_to_msku_def gui_relabel_def first_row_relabel split: option.splits)

lemma db_map_sku_to_msku_relabel:
  "db_map_sku_to_msku (relabel_rows f table) s = db_map_sku_to_msku table s"
  by (simp add: db_map_sku_to_msku_def find_relabel split: option.splits)

lemma first_row_Single:
  "(case filter (\<lambda>r. m_sku r = s) rows of [] \<Rightarrow> Not_found | r # _ \<Rightarrow> Single (m_msku r)) =
     Single m \<longleftrightarrow>
   (\<exists>r. List.find (\<lambda>r. m_sku r = s) rows = Some r \<and> m_msku r = m)"
proof (cases "filter (\<lambda>r. m_sku r = s) rows")
  case Nil
  then have "List.find (\<lambda>r. m_sku r = s) rows = None"
    by (simp add: filter_Nil_find)
  with Nil show ?thesis by simp
next
  case (Cons r rs)
  then show ?thesis
    using filter_Cons_find[OF Cons] by simp
qed

lemma map_sku_to_msku_Single_iff:
  "map_sku_to_msku w s = Single m \<longleftrightarrow>
     map_of (combo_mapping w) s = None \<and>
     (\<exists>r. List.find (\<lambda>r. m_sku r = s) (mapping_data w) = Some r \<and> m_msku r = m)"
  using first_row_Single[of s "mapping_data w" m]
  by (auto simp: map_sku_to_msku_def split: option.splits)

lemma gui_map_sku_to_msku_Single_iff:
  "gui_map_sku_to_msku g s = Single m \<longleftrightarrow>
     (handle_combos g \<longrightarrow> map_of (gui_combo_mapping g) s = None) \<and>
     (\<exists>r. List.find (\<lambda>r. m_sku r = s) (gui_mapping_data g) = Some r \<and> m_msku r = m)"
  using first_row_Single[of s "gui_mapping_data g" m]
  by (auto simp: gui_map_sku_to_msku_def split: option.splits)

lemma db_map_sku_to_msku_Some_iff:
  "db_map_sku_to_msku table s = Some m \<longleftrightarrow>
     (\<exists>r. List.find (\<lambda>r. m_sku r = s) table = Some r \<and> m_msku r = m)"
  by (auto simp: db_map_sku_to_msku_def split: option.splits)

text \<open>
  Claim C6, as amended. A single outcome is produced exactly when the combo lookup does not
  take the SKU and some mapping row carries the SKU; the MSKU is that of the first such row.
  The combo lookup takes every key of the combo dictionary in the web processor, and in the
  desktop mapper while ``Handle Combo Products'' is switched on. The lookup of the database
  service answers the MSKU of the first row with the SKU. The platform plays no part in any
  of the three: the outcome is the same after any rewriting of the platform column of the
  mapping table.
\<close>

theorem single_by_sku_alone:
  "(map_sku_to_msku w s = Single m \<longleftrightarrow>
      map_of (combo_mapping w) s = None \<and>
      (\<exists>r. List.find (\<lambda>r. m_sku r = s) (mapping_data w) = Some r \<and> m_msku r = m)) \<and>
   map_sku_to_msku (relabel f w) s = map_sku_to_msku w s \<and>
   (gui_map_sku_to_msku g s = Single m \<longleftrightarrow>
      (handle_combos g \<longrightarrow> map_of (gui_combo_mapping g) s = None) \<and>
      (\<exists>r. List.find (\<lambda>r. m_sku r = s) (gui_mapping_data g) = Some r \<and> m_msku r = m)) \<and>
   gui_map_sku_to_msku (gui_relabel f g) s = gui_map_sku_to_msku g s \<and>
   (db_map_sku_to_msku table s = Some m \<longleftrightarrow>
      (\<exists>r. List.find (\<lambda>r. m_sku r = s) table = Some r \<and> m_msku r = m)) \<and>
   db_map_sku_to_msku (relabel_rows f table) s = db_map_sku_to_msku table s"
  using map_sku_to_msku_Single_iff[of w s m] gui_map_sku_to_msku_Single_iff[of g s m]
    db_map_sku_to_msku_Some_iff[of table s m]
  by (simp only: map_sku_to_msku_relabel gui_map_sku_to_msku_relabel
      db_map_sku_to_msku_relabel simp_thms)

text \<open>
  \<open>X2\<close> has a Flipkart row before its Amazon row; the first one decides in all three
  programs. \<open>KIT1\<close>, a key of the combo dictionary, is a single item for the desktop mapper
  with the option switched off.
\<close>

theorem single_by_sku_alone_witness:
  "map_sku_to_msku ex_wms ''X2'' = Single ''M3'' \<and>
   map_of (combo_mapping ex_wms) ''X2'' = None \<and>
   List.find (\<lambda>r. m_sku r = ''X2'') (mapping_data ex_wms) =
     Some \<lparr>m_sku = ''X2'', m_msku = ''M3'', m_platform = ''Flipkart''\<rparr> \<and>
   map_sku_to_msku (relabel (\<lambda>x. ''Amazon'') ex_wms) ''X2'' = Single ''M3'' \<and>
   gui_map_sku_to_msku (ex_gui True) ''X2'' = Single ''M3'' \<and>
   gui_map_sku_to_msku (gui_relabel (\<lambda>x. ''Amazon'') (ex_gui True)) ''X2'' = Single ''M3'' \<and>
   db_map_sku_to_msku ex_mapping ''X2'' = Some ''M3'' \<and>
   db_map_sku_to_msku (relabel_rows (\<lambda>x. ''Amazon'') ex_mapping) ''X2'' = Some ''M3'' \<and>
   \<not> handle_combos (ex_gui False) \<and>
   map_of (gui_combo_mapping (ex_gui False)) ''KIT1'' = Some [''M1'', ''M2''] \<and>
   gui_map_sku_to_msku (ex_gui False) ''KIT1'' = Single ''M9''"
  using single_by_sku_alone [of ex_wms "''X2''" "''M3''" "\<lambda>x. ''Amazon''" "ex_gui True" ex_mapping]
    single_by_sku_alone [of ex_wms "''KIT1''" "''M9''" "\<lambda>x. ''Amazon''" "ex_gui False" ex_mapping]
  by (simp add: ex_wms_def ex_gui_def ex_mapping_def)

text \<open>
  In a file detected as Amazon the SKU \<open>X1\<close>, mapped for Flipkart only, has no mapping row
  for the detected platform, and is resolved to a single item all the same.
\<close>

theorem single_for_platform_counterexample:
  "detect_platform [''FNSKU'', ''Quantity'', ''Event Type'', ''Disposition''] = Amazon \<and>
   matches_for_platform ex_wms Amazon ''X1'' = [] \<and>
   spec_resolve ex_wms Amazon ''X1'' = Not_found \<and>
   map_sku_to_msku ex_wms ''X1'' = Single ''M1''"
  by (simp add: ex_wms_def ex_mapping_def matches_for_platform_def spec_resolve_def
      map_sku_to_msku_def detect_platform_def upper_def upper_char_def)

section \<open>Properties of the expansion\<close>

lemmas run_simps =
  process_sales_file_def detect_platform_def get_sku_column_def upper_def upper_char_def
  finish_def frame_of_rows_def union_labels_def
  process_row_def emit_lines_def row_get_def row_set_def map_sku_to_msku_def add_change_def
  combo_line_def single_line_def unknown_line_def Let_def

lemma process_rows_append:
  "process_rows w p c (xs @ ys) a =
     (case process_rows w p c xs a of Inl e \<Rightarrow> Inl e | Inr a' \<Rightarrow> process_rows w p c ys a')"
  by (induction xs arbitrary: a) (auto split: sum.splits)

lemma process_rows_skip:
  assumes "\<And>a. process_row w p c row a = Inr a"
  shows "process_rows w p c (pre @ row # post) a0 = process_rows w p c (pre @ post) a0"
  using assms by (simp add: process_rows_append split: sum.splits)

lemma process_row_missing_sku: "map_of row c = Some NaN \<Longrightarrow> process_row w p c row a = Inr a"
  by (simp add: process_row_def Let_def)

lemma process_row_nonpositive:
  "map_of row c = Some sku \<Longrightarrow> map_of row ''Quantity'' = Some (Num q) \<Longrightarrow> q \<le> 0 \<Longrightarrow>
   process_row w p c row a = Inr a"
  by (simp add: process_row_def row_get_def Let_def)

lemma process_row_amazon_filter:
  assumes "map_of row c = Some sku"
    and "le_zero (row_get row ''Quantity'' (Num 1)) \<noteq> Inl TypeError"
    and "map_of row ''Event Type'' \<noteq> Some (Str ''Shipments'') \<or>
         map_of row ''Disposition'' \<noteq> Some (Str ''SELLABLE'')"
  shows "process_row w Amazon c row a = Inr a"
proof (cases "row_get row ''Quantity'' (Num 1)")
  case (Str x)
  with assms(2) show ?thesis by simp
next
  case (Num n)
  with assms(1,3) show ?thesis by (auto simp: process_row_def Let_def)
next
  case NaN
  with assms(1,3) show ?thesis by (auto simp: process_row_def Let_def)
qed

lemma process_row_emit:
  assumes "map_of row c = Some sku" "sku \<noteq> NaN"
    and "row_get row ''Quantity'' (Num 1) = Num q" "0 < q"
    and "\<not> (p = Amazon \<and>
            (map_of row ''Event Type'' \<noteq> Some (Str ''Shipments'') \<or>
             map_of row ''Disposition'' \<noteq> Some (Str ''SELLABLE'')))"
  shows "process_row w p c row a = emit_lines w p row sku (Num q) a"
  using assms by (auto simp: process_row_def Let_def)

lemma map_of_row_set: "map_of (row_set k v row) k' = (if k' = k then Some v else map_of row k')"
  by (simp add: row_set_def update_conv')

lemma sold_add_change: "sold (add_change m q ch) k = sold ch k + (if k = m then q else 0)"
  by (simp add: sold_def add_change_def update_conv' split: option.splits)

lemma combo_rows_Num:
  "combo_rows p row sku (Num q) cs a =
     Inr \<lparr>processed_rows = processed_rows a @ map (\<lambda>c. combo_line p row sku c q) cs,
          inventory_changes = foldl (\<lambda>ch c. add_change c q ch) (inventory_changes a) cs\<rparr>"
  by (induction cs arbitrary: a) simp_all

lemma gui_combo_rows_Num:
  "gui_combo_rows row sku (Num q) cs a =
     Inr \<lparr>processed_rows = processed_rows a @ map (\<lambda>c. gui_combo_line row sku c q) cs,
          inventory_changes = foldl (\<lambda>ch c. add_change c q ch) (inventory_changes a) cs\<rparr>"
  by (induction cs arbitrary: a) simp_all

lemma sold_foldl_add_change:
  "sold (foldl (\<lambda>ch c. add_change c q ch) ch cs) k = sold ch k + q * int (count_list cs k)"
  by (induction cs arbitrary: ch) (simp_all add: sold_add_change algebra_simps)

lemma combo_line_cells:
  "map_of (combo_line p row sku c q) ''Quantity'' = Some (Num q)"
  "map_of (combo_line p row sku c q) ''MSKU'' = Some (Str c)"
  "map_of (combo_line p row sku c q) ''Product_Type'' = Some (Str ''Combo_Component'')"
  "map_of (combo_line p row sku c q) ''Original_SKU'' = Some sku"
  by (simp_all add: combo_line_def map_of_row_set)

text \<open>
  Claim C2, as amended. A row that passes the guards, carries a quantity \<open>N > 0\<close> and a SKU
  resolving to the combo \<open>[A, B]\<close> of two different components appends one output line per
  component, each with the full quantity \<open>N\<close>, and raises the entry of either component in
  the change dictionary by \<open>N\<close>; no other entry moves. The dictionary holds quantities sold,
  with a positive sign; the reconciler subtracts them.
\<close>

theorem combo_fan_out:
  assumes "map_of row c = Some (Str s)"
    and "map_of row ''Quantity'' = Some (Num N)" and "0 < N"
    and "\<not> (p = Amazon \<and>
            (map_of row ''Event Type'' \<noteq> Some (Str ''Shipments'') \<or>
             map_of row ''Disposition'' \<noteq> Some (Str ''SELLABLE'')))"
    and "map_sku_to_msku w s = Combo [A, B]" and "A \<noteq> B"
  shows "\<exists>a'. process_row w p c row a = Inr a' \<and>
           processed_rows a' =
             processed_rows a @ [combo_line p row (Str s) A N, combo_line p row (Str s) B N] \<and>
           map_of (combo_line p row (Str s) A N) ''MSKU'' = Some (Str A) \<and>
           map_of (combo_line p row (Str s) A N) ''Quantity'' = Some (Num N) \<and>
           map_of (combo_line p row (Str s) B N) ''MSKU'' = Some (Str B) \<and>
           map_of (combo_line p row (Str s) B N) ''Quantity'' = Some (Num N) \<and>
           sold (inventory_changes a') A = sold (inventory_changes a) A + N \<and>
           sold (inventory_changes a') B = sold (inventory_changes a) B + N \<and>
           (\<forall>m. m \<noteq> A \<and> m \<noteq> B \<longrightarrow>
              map_of (inventory_changes a') m = map_of (inventory_changes a) m)"
proof -
  have "process_row w p c row a = emit_lines w p row (Str s) (Num N) a"
    using assms(1-4) by (intro process_row_emit) (simp_all add: row_get_def)
  also have "\<dots> = combo_rows p row (Str s) (Num N) [A, B] a"
    using assms(5) by (simp add: emit_lines_def)
  finally have res: "process_row w p c row a =
     Inr \<lparr>processed_rows = processed_rows a @ map (\<lambda>c. combo_line p row (Str s) c N) [A, B],
          inventory_changes = foldl (\<lambda>ch c. add_change c N ch) (inventory_changes a) [A, B]\<rparr>"
    by (simp only: combo_rows_Num)
  have other: "map_of (add_change B N (add_change A N ch)) m = map_of ch m"
    if "m \<noteq> A \<and> m \<noteq> B" for m ch
    using that by (simp add: add_change_def update_conv' split: option.splits)
  show ?thesis
    unfolding res using \<open>A \<noteq> B\<close>
    by (simp add: combo_line_cells sold_add_change other)
qed

text \<open>
  Three units of \<open>KIT1\<close>, with four units of \<open>M1\<close> already counted: two lines of quantity
  three, and the entries seven and three.
\<close>

theorem combo_fan_out_witness:
  "map_of (df_rows ex_meesho ! 0) ''SKU'' = Some (Str ''KIT1'') \<and>
   map_of (df_rows ex_meesho ! 0) ''Quantity'' = Some (Num 3) \<and>
   map_sku_to_msku ex_wms ''KIT1'' = Combo [''M1'', ''M2''] \<and>
   process_row ex_wms Meesho ''SKU'' (df_rows ex_meesho ! 0)
       \<lparr>processed_rows = [], inventory_changes = [(''M1'', 4)]\<rparr> =
     Inr \<lparr>processed_rows =
            [[(''Sub Order No'', Str ''S1''), (''SKU'', Str ''KIT1''), (''Quantity'', Num 3),
              (''Original_SKU'', Str ''KIT1''), (''MSKU'', Str ''M1''),
              (''Product_Type'', Str ''Combo_Component''), (''Platform'', Str ''Meesho'')],
             [(''Sub Order No'', Str ''S1''), (''SKU'', Str ''KIT1''), (''Quantity'', Num 3),
              (''Original_SKU'', Str ''KIT1''), (''MSKU'', Str ''M2''),
              (''Product_Type'', Str ''Combo_Component''), (''Platform'', Str ''Meesho'')]],
          inventory_changes = [(''M1'', 7), (''M2'', 3)]\<rparr>"
  using combo_fan_out [of "df_rows ex_meesho ! 0" "''SKU''" "''KIT1''" 3 Meesho ex_wms
      "''M1''" "''M2''" "\<lparr>processed_rows = [], inventory_changes = [(''M1'', 4)]\<rparr>"]
  by (simp add: ex_meesho_def ex_wms_def ex_mapping_def process_row_def emit_lines_def
      row_get_def row_set_def map_sku_to_msku_def add_change_def combo_line_def Let_def)

text \<open>
  The file with the single sale of three \<open>KIT1\<close>: the entries of \<open>M1\<close> and \<open>M2\<close> in the
  dictionary that \<open>process_sales_file\<close> returns are \<open>3\<close>, not \<open>-3\<close>.
\<close>

theorem combo_fan_out_counterexample:
  "process_sales_file ex_wms ex_meesho =
     Inr \<lparr>result_df =
            \<lparr>df_columns =
               [''Sub Order No'', ''SKU'', ''Quantity'', ''Original_SKU'', ''MSKU'',
                ''Product_Type'', ''Platform''],
             df_rows =
               [[(''Sub Order No'', Str ''S1''), (''SKU'', Str ''KIT1''), (''Quantity'', Num 3),
                 (''Original_SKU'', Str ''KIT1''), (''MSKU'', Str ''M1''),
                 (''Product_Type'', Str ''Combo_Component''), (''Platform'', Str ''Meesho'')],
                [(''Sub Order No'', Str ''S1''), (''SKU'', Str ''KIT1''), (''Quantity'', Num 3),
                 (''Original_SKU'', Str ''KIT1''), (''MSKU'', Str ''M2''),
                 (''Product_Type'', Str ''Combo_Component''), (''Platform'', Str ''Meesho'')],
                [(''Sub Order No'', Str ''S4''), (''SKU'', Str ''ZZZ999''), (''Quantity'', Num 5),
                 (''Original_SKU'', NaN), (''MSKU'', Str ''Mapping Not Found''),
                 (''Product_Type'', Str ''Unknown''), (''Platform'', Str ''Meesho'')]]\<rparr>,
          result_changes = [(''M1'', 3), (''M2'', 3)]\<rparr> \<and>
   delta_entry (process_sales_file ex_wms ex_meesho) ''M1'' = Some 3 \<and>
   delta_entry (process_sales_file ex_wms ex_meesho) ''M2'' = Some 3 \<and>
   delta_entry (process_sales_file ex_wms ex_meesho) ''M1'' \<noteq> Some (- 3)"
  by (simp add: ex_meesho_def ex_wms_def ex_mapping_def delta_entry_def run_simps)

text \<open>
  Claim C4. A row whose SKU cell is missing, or whose quantity is an integer not above zero,
  leaves the accumulator as it is (no output line, no change entry, no error), and the
  result for the file is the result for the file without the row.
\<close>

theorem skipped_rows:
  assumes col: "get_sku_column (df_columns df) (detect_platform (df_columns df)) = Some c"
    and bad: "map_of row c = Some NaN \<or>
              (map_of row c \<noteq> None \<and> (\<exists>q. map_of row ''Quantity'' = Some (Num q) \<and> q \<le> 0))"
  shows "process_row w p c row a = Inr a \<and>
         process_sales_file w (df\<lparr>df_rows := pre @ row # post\<rparr>) =
         process_sales_file w (df\<lparr>df_rows := pre @ post\<rparr>)"
proof -
  have skip: "process_row w p' c row a' = Inr a'" for p' a'
    using bad process_row_missing_sku process_row_nonpositive by blast
  have "process_rows w p' c (pre @ row # post) a0 = process_rows w p' c (pre @ post) a0" for p' a0
    by (rule process_rows_skip) (rule skip)
  with col skip show ?thesis
    by (simp add: process_sales_file_def)
qed

text \<open>The rows \<open>S2\<close> (no SKU) and \<open>S3\<close> (quantity zero) of the Meesho file drop out.\<close>

theorem skipped_rows_witness:
  "get_sku_column (df_columns ex_meesho) (detect_platform (df_columns ex_meesho)) = Some ''SKU'' \<and>
   map_of (df_rows ex_meesho ! 1) ''SKU'' = Some NaN \<and>
   map_of (df_rows ex_meesho ! 2) ''SKU'' = Some (Str ''X1'') \<and>
   map_of (df_rows ex_meesho ! 2) ''Quantity'' = Some (Num 0) \<and>
   process_sales_file ex_wms ex_meesho =
     process_sales_file ex_wms
       (ex_meesho\<lparr>df_rows := [df_rows ex_meesho ! 0, df_rows ex_meesho ! 3]\<rparr>)"
  using
    skipped_rows [of ex_meesho "''SKU''" "df_rows ex_meesho ! 1" ex_wms Meesho
      "\<lparr>processed_rows = [], inventory_changes = []\<rparr>" "[df_rows ex_meesho ! 0]"
      "[df_rows ex_meesho ! 2, df_rows ex_meesho ! 3]"]
    skipped_rows [of ex_meesho "''SKU''" "df_rows ex_meesho ! 2" ex_wms Meesho
      "\<lparr>processed_rows = [], inventory_changes = []\<rparr>" "[df_rows ex_meesho ! 0]"
      "[df_rows ex_meesho ! 3]"]
  by (simp add: ex_meesho_def get_sku_column_def detect_platform_def upper_def upper_char_def)

text \<open>
  Claim C8. In a file detected as Amazon, a row whose \<open>Event Type\<close> is not \<open>Shipments\<close> or
  whose \<open>Disposition\<close> is not \<open>SELLABLE\<close> leaves the accumulator as it is, whatever its SKU
  resolves to, and the result for the file is the result for the file without the row. The
  row is one that reaches the filter: it has a cell in the SKU column and its quantity is not
  a text, on which the comparison before the filter would raise.
\<close>

theorem amazon_filter:
  assumes "detect_platform (df_columns df) = Amazon"
    and "get_sku_column (df_columns df) Amazon = Some c"
    and "map_of row c = Some sku"
    and "le_zero (row_get row ''Quantity'' (Num 1)) \<noteq> Inl TypeError"
    and "map_of row ''Event Type'' \<noteq> Some (Str ''Shipments'') \<or>
         map_of row ''Disposition'' \<noteq> Some (Str ''SELLABLE'')"
  shows "process_row w Amazon c row a = Inr a \<and>
         process_sales_file w (df\<lparr>df_rows := pre @ row # post\<rparr>) =
         process_sales_file w (df\<lparr>df_rows := pre @ post\<rparr>)"
proof -
  have skip: "process_row w Amazon c row a' = Inr a'" for a'
    using assms(3-5) by (rule process_row_amazon_filter)
  have "process_rows w Amazon c (pre @ row # post) a0 = process_rows w Amazon c (pre @ post) a0"
    for a0
    by (rule process_rows_skip) (rule skip)
  with assms(1,2) skip show ?thesis
    by (simp add: process_sales_file_def)
qed

text \<open>The damaged shipment of \<open>X1\<close>, a SKU that resolves, is left out of the Amazon file.\<close>

theorem amazon_filter_witness:
  "detect_platform (df_columns ex_amazon) = Amazon \<and>
   get_sku_column (df_columns ex_amazon) Amazon = Some ''FNSKU'' \<and>
   map_of (df_rows ex_amazon ! 1) ''FNSKU'' = Some (Str ''X1'') \<and>
   map_of (df_rows ex_amazon ! 1) ''Disposition'' = Some (Str ''DAMAGED'') \<and>
   map_sku_to_msku ex_wms ''X1'' = Single ''M1'' \<and>
   process_sales_file ex_wms ex_amazon =
     process_sales_file ex_wms (ex_amazon\<lparr>df_rows := [df_rows ex_amazon ! 0]\<rparr>) \<and>
   process_sales_file ex_wms ex_amazon =
     Inr \<lparr>result_df =
            \<lparr>df_columns =
               [''FNSKU'', ''Quantity'', ''Event Type'', ''Disposition'', ''MSKU'',
                ''Product_Type'', ''Platform''],
             df_rows =
               [[(''FNSKU'', Str ''X1''), (''Quantity'', Num 2),
                 (''Event Type'', Str ''Shipments''), (''Disposition'', Str ''SELLABLE''),
                 (''MSKU'', Str ''M1''), (''Product_Type'', Str ''Single''),
                 (''Platform'', Str ''Amazon'')]]\<rparr>,
          result_changes = [(''M1'', 2)]\<rparr>"
  using amazon_filter [of ex_amazon "''FNSKU''" "df_rows ex_amazon ! 1" "Str ''X1''" ex_wms
      "\<lparr>processed_rows = [], inventory_changes = []\<rparr>" "[df_rows ex_amazon ! 0]" "[]"]
  by (simp add: ex_amazon_def ex_wms_def ex_mapping_def run_simps)

lemma single_line_cells:
  "map_of (single_line p row m) ''Quantity'' = map_of row ''Quantity''"
  "map_of (single_line p row m) ''MSKU'' = Some (Str m)"
  "map_of (unknown_line p row) ''Quantity'' = map_of row ''Quantity''"
  "map_of (gui_single_line row m) ''Quantity'' = map_of row ''Quantity''"
  "map_of (gui_unknown_line row) ''Quantity'' = map_of row ''Quantity''"
  "map_of (gui_combo_line row sku c q) ''Quantity'' = Some (Num q)"
  by (simp_all add: single_line_def unknown_line_def gui_single_line_def gui_unknown_line_def
      gui_combo_line_def map_of_row_set)

lemma emit_lines_Num:
  "emit_lines w p row sku (Num q) a =
     Inr (case resolve_cell w sku of
            Combo cs \<Rightarrow>
              \<lparr>processed_rows = processed_rows a @ map (\<lambda>m. combo_line p row sku m q) cs,
               inventory_changes = foldl (\<lambda>ch m. add_change m q ch) (inventory_changes a) cs\<rparr>
          | Single m \<Rightarrow>
              \<lparr>processed_rows = processed_rows a @ [single_line p row m],
               inventory_changes = add_change m q (inventory_changes a)\<rparr>
          | Not_found \<Rightarrow> a\<lparr>processed_rows := processed_rows a @ [unknown_line p row]\<rparr>)"
  by (simp add: emit_lines_def combo_rows_Num split: outcome.splits)

lemma gui_emit_lines_Num:
  "gui_emit_lines g row sku (Num q) a =
     Inr (case gui_resolve_cell g sku of
            Combo cs \<Rightarrow>
              \<lparr>processed_rows = processed_rows a @ map (\<lambda>m. gui_combo_line row sku m q) cs,
               inventory_changes = foldl (\<lambda>ch m. add_change m q ch) (inventory_changes a) cs\<rparr>
          | Single m \<Rightarrow>
              \<lparr>processed_rows = processed_rows a @ [gui_single_line row m],
               inventory_changes = add_change m q (inventory_changes a)\<rparr>
          | Not_found \<Rightarrow> a\<lparr>processed_rows := processed_rows a @ [gui_unknown_line row]\<rparr>)"
  by (simp add: gui_emit_lines_def gui_combo_rows_Num split: outcome.splits)

lemma gui_process_row_emit:
  assumes "map_of row c = Some sku" "sku \<noteq> NaN"
    and "row_get row ''Quantity'' (Num 1) = Num q" "0 < q"
  shows "gui_process_row g c row a = gui_emit_lines g row sku (Num q) a"
  using assms by (auto simp: gui_process_row_def Let_def)

lemma single_line_msku:
  "map_of (single_line p row m) ''MSKU'' = Some (Str m)"
  "map_of (unknown_line p row) ''MSKU'' = Some (Str ''Mapping Not Found'')"
  "map_of (gui_single_line row m) ''MSKU'' = Some (Str m)"
  "map_of (gui_unknown_line row) ''MSKU'' = Some (Str ''Mapping Not Found'')"
  by (simp_all add: single_line_def unknown_line_def gui_single_line_def gui_unknown_line_def
      map_of_row_set)

text \<open>
  Claim C9, as amended. In a file without the column \<open>Quantity\<close>, a row with a SKU that is
  not skipped by the Amazon filter of the web processor is not skipped: it is expanded with
  the quantity \<open>1\<close>. A single item gets one output line and \<open>1\<close> more in its entry of the
  change dictionary; a combo gets one line per component, each with \<open>Quantity = 1\<close>, and
  \<open>1\<close> more for every component; an unmapped SKU gets one output line and no entry. The
  desktop mapper does the same, without the filter.
\<close>

theorem default_quantity:
  "(map_of row ''Quantity'' = None \<and> map_of row c = Some sku \<and> sku \<noteq> NaN \<and>
    \<not> (p = Amazon \<and>
        (map_of row ''Event Type'' \<noteq> Some (Str ''Shipments'') \<or>
         map_of row ''Disposition'' \<noteq> Some (Str ''SELLABLE''))) \<longrightarrow>
      (\<exists>a'. process_row w p c row a = Inr a' \<and>
         (case resolve_cell w sku of
            Combo cs \<Rightarrow>
              processed_rows a' = processed_rows a @ map (\<lambda>m. combo_line p row sku m 1) cs \<and>
              inventory_changes a' = foldl (\<lambda>ch m. add_change m 1 ch) (inventory_changes a) cs
          | Single m \<Rightarrow>
              (\<exists>line. processed_rows a' = processed_rows a @ [line] \<and>
                 map_of line ''MSKU'' = Some (Str m)) \<and>
              inventory_changes a' = add_change m 1 (inventory_changes a)
          | Not_found \<Rightarrow>
              (\<exists>line. processed_rows a' = processed_rows a @ [line] \<and>
                 map_of line ''MSKU'' = Some (Str ''Mapping Not Found'')) \<and>
              inventory_changes a' = inventory_changes a))) \<and>
   (map_of row ''Quantity'' = None \<and> map_of row c = Some sku \<and> sku \<noteq> NaN \<longrightarrow>
      (\<exists>a'. gui_process_row g c row a = Inr a' \<and>
         (case gui_resolve_cell g sku of
            Combo cs \<Rightarrow>
              processed_rows a' = processed_rows a @ map (\<lambda>m. gui_combo_line row sku m 1) cs \<and>
              inventory_changes a' = foldl (\<lambda>ch m. add_change m 1 ch) (inventory_changes a) cs
          | Single m \<Rightarrow>
              (\<exists>line. processed_rows a' = processed_rows a @ [line] \<and>
                 map_of line ''MSKU'' = Some (Str m)) \<and>
              inventory_changes a' = add_change m 1 (inventory_changes a)
          | Not_found \<Rightarrow>
              (\<exists>line. processed_rows a' = processed_rows a @ [line] \<and>
                 map_of line ''MSKU'' = Some (Str ''Mapping Not Found'')) \<and>
              inventory_changes a' = inventory_changes a))) \<and>
   map_of (combo_line p row sku m 1) ''Quantity'' = Some (Num 1) \<and>
   map_of (gui_combo_line row sku m 1) ''Quantity'' = Some (Num 1) \<and>
   sold (add_change m 1 ch) m = sold ch m + 1 \<and>
   sold (foldl (\<lambda>ch m. add_change m 1 ch) ch cs) m = sold ch m + int (count_list cs m)"
proof (intro conjI impI)
  assume h: "map_of row ''Quantity'' = None \<and> map_of row c = Some sku \<and> sku \<noteq> NaN \<and>
    \<not> (p = Amazon \<and>
        (map_of row ''Event Type'' \<noteq> Some (Str ''Shipments'') \<or>
         map_of row ''Disposition'' \<noteq> Some (Str ''SELLABLE'')))"
  then have "process_row w p c row a = emit_lines w p row sku (Num 1) a"
    by (intro process_row_emit) (simp_all add: row_get_def)
  then show "\<exists>a'. process_row w p c row a = Inr a' \<and>
         (case resolve_cell w sku of
            Combo cs \<Rightarrow>
              processed_rows a' = processed_rows a @ map (\<lambda>m. combo_line p row sku m 1) cs \<and>
              inventory_changes a' = foldl (\<lambda>ch m. add_change m 1 ch) (inventory_changes a) cs
          | Single m \<Rightarrow>
              (\<exists>line. processed_rows a' = processed_rows a @ [line] \<and>
                 map_of line ''MSKU'' = Some (Str m)) \<and>
              inventory_changes a' = add_change m 1 (inventory_changes a)
          | Not_found \<Rightarrow>
              (\<exists>line. processed_rows a' = processed_rows a @ [line] \<and>
                 map_of line ''MSKU'' = Some (Str ''Mapping Not Found'')) \<and>
              inventory_changes a' = inventory_changes a)"
    by (simp add: emit_lines_Num single_line_msku split: outcome.splits)
next
  assume h: "map_of row ''Quantity'' = None \<and> map_of row c = Some sku \<and> sku \<noteq> NaN"
  then have "gui_process_row g c row a = gui_emit_lines g row sku (Num 1) a"
    by (intro gui_process_row_emit) (simp_all add: row_get_def)
  then show "\<exists>a'. gui_process_row g c row a = Inr a' \<and>
         (case gui_resolve_cell g sku of
            Combo cs \<Rightarrow>
              processed_rows a' = processed_rows a @ map (\<lambda>m. gui_combo_line row sku m 1) cs \<and>
              inventory_changes a' = foldl (\<lambda>ch m. add_change m 1 ch) (inventory_changes a) cs
          | Single m \<Rightarrow>
              (\<exists>line. processed_rows a' = processed_rows a @ [line] \<and>
                 map_of line ''MSKU'' = Some (Str m)) \<and>
              inventory_changes a' = add_change m 1 (inventory_changes a)
          | Not_found \<Rightarrow>
              (\<exists>line. processed_rows a' = processed_rows a @ [line] \<and>
                 map_of line ''MSKU'' = Some (Str ''Mapping Not Found'')) \<and>
              inventory_changes a' = inventory_changes a)"
    by (simp add: gui_emit_lines_Num single_line_msku split: outcome.splits)
qed (simp_all add: combo_line_cells single_line_cells sold_add_change sold_foldl_add_change)

text \<open>
  The rows of the file without quantities: the single item \<open>X1\<close> adds \<open>1\<close> for \<open>M1\<close>, and
  the bundle \<open>KIT1\<close> gives two lines of quantity \<open>1\<close> and adds \<open>1\<close> for \<open>M1\<close> and for
  \<open>M2\<close>, in both programs.
\<close>

theorem default_quantity_witness:
  "map_of (df_rows ex_plain ! 0) ''Quantity'' = None \<and>
   map_of (df_rows ex_plain ! 0) ''SKU'' = Some (Str ''X1'') \<and>
   resolve_cell ex_wms (Str ''X1'') = Single ''M1'' \<and>
   process_row ex_wms Meesho ''SKU'' (df_rows ex_plain ! 0)
       \<lparr>processed_rows = [], inventory_changes = []\<rparr> =
     Inr \<lparr>processed_rows =
            [[(''Sub Order No'', Str ''S1''), (''SKU'', Str ''X1''), (''MSKU'', Str ''M1''),
              (''Product_Type'', Str ''Single''), (''Platform'', Str ''Meesho'')]],
          inventory_changes = [(''M1'', 1)]\<rparr> \<and>
   gui_process_row (ex_gui True) ''SKU'' (df_rows ex_plain ! 0)
       \<lparr>processed_rows = [], inventory_changes = []\<rparr> =
     Inr \<lparr>processed_rows =
            [[(''Sub Order No'', Str ''S1''), (''SKU'', Str ''X1''), (''MSKU'', Str ''M1''),
              (''Product_Type'', Str ''Single'')]],
          inventory_changes = [(''M1'', 1)]\<rparr> \<and>
   map_of (df_rows ex_plain ! 1) ''Quantity'' = None \<and>
   map_of (df_rows ex_plain ! 1) ''SKU'' = Some (Str ''KIT1'') \<and>
   resolve_cell ex_wms (Str ''KIT1'') = Combo [''M1'', ''M2''] \<and>
   process_row ex_wms Meesho ''SKU'' (df_rows ex_plain ! 1)
       \<lparr>processed_rows = [], inventory_changes = []\<rparr> =
     Inr \<lparr>processed_rows =
            [[(''Sub Order No'', Str ''S2''), (''SKU'', Str ''KIT1''),
              (''Original_SKU'', Str ''KIT1''), (''MSKU'', Str ''M1''), (''Quantity'', Num 1),
              (''Product_Type'', Str ''Combo_Component''), (''Platform'', Str ''Meesho'')],
             [(''Sub Order No'', Str ''S2''), (''SKU'', Str ''KIT1''),
              (''Original_SKU'', Str ''KIT1''), (''MSKU'', Str ''M2''), (''Quantity'', Num 1),
              (''Product_Type'', Str ''Combo_Component''), (''Platform'', Str ''Meesho'')]],
          inventory_changes = [(''M1'', 1), (''M2'', 1)]\<rparr> \<and>
   gui_process_row (ex_gui True) ''SKU'' (df_rows ex_plain ! 1)
       \<lparr>processed_rows = [], inventory_changes = []\<rparr> =
     Inr \<lparr>processed_rows =
            [[(''Sub Order No'', Str ''S2''), (''SKU'', Str ''KIT1''),
              (''Original_SKU'', Str ''KIT1''), (''MSKU'', Str ''M1''), (''Quantity'', Num 1),
              (''Product_Type'', Str ''Combo_Component'')],
             [(''Sub Order No'', Str ''S2''), (''SKU'', Str ''KIT1''),
              (''Original_SKU'', Str ''KIT1''), (''MSKU'', Str ''M2''), (''Quantity'', Num 1),
              (''Product_Type'', Str ''Combo_Component'')]],
          inventory_changes = [(''M1'', 1), (''M2'', 1)]\<rparr>"
  using
    default_quantity [of "df_rows ex_plain ! 0" "''SKU''" "Str ''X1''" Meesho ex_wms
      "\<lparr>processed_rows = [], inventory_changes = []\<rparr>" "ex_gui True" "''M1''" "[]" "[]"]
    default_quantity [of "df_rows ex_plain ! 1" "''SKU''" "Str ''KIT1''" Meesho ex_wms
      "\<lparr>processed_rows = [], inventory_changes = []\<rparr>" "ex_gui True" "''M1''" "[]" "[]"]
  by (simp add: ex_plain_def ex_wms_def ex_gui_def ex_mapping_def map_sku_to_msku_def
      gui_map_sku_to_msku_def process_row_def gui_process_row_def emit_lines_def
      gui_emit_lines_def row_get_def single_line_def gui_single_line_def combo_line_def
      gui_combo_line_def row_set_def add_change_def Let_def)

text \<open>
  In the frame that the method returns for this file, the line of the single item \<open>X1\<close> has
  a blank in the column \<open>Quantity\<close>, which is there for the lines of the bundle: the line
  does not record the quantity \<open>1\<close>. And in an Amazon file without quantities a row with a
  SKU is skipped when it is not a sellable shipment.
\<close>

theorem default_quantity_counterexample:
  "process_sales_file ex_wms ex_plain =
     Inr \<lparr>result_df =
            \<lparr>df_columns =
               [''Sub Order No'', ''SKU'', ''MSKU'', ''Product_Type'', ''Platform'',
                ''Original_SKU'', ''Quantity''],
             df_rows =
               [[(''Sub Order No'', Str ''S1''), (''SKU'', Str ''X1''), (''MSKU'', Str ''M1''),
                 (''Product_Type'', Str ''Single''), (''Platform'', Str ''Meesho''),
                 (''Original_SKU'', NaN), (''Quantity'', NaN)],
                [(''Sub Order No'', Str ''S2''), (''SKU'', Str ''KIT1''), (''MSKU'', Str ''M1''),
                 (''Product_Type'', Str ''Combo_Component''), (''Platform'', Str ''Meesho''),
                 (''Original_SKU'', Str ''KIT1''), (''Quantity'', Num 1)],
                [(''Sub Order No'', Str ''S2''), (''SKU'', Str ''KIT1''), (''MSKU'', Str ''M2''),
                 (''Product_Type'', Str ''Combo_Component''), (''Platform'', Str ''Meesho''),
                 (''Original_SKU'', Str ''KIT1''), (''Quantity'', Num 1)]]\<rparr>,
          result_changes = [(''M1'', 2), (''M2'', 1)]\<rparr> \<and>
   output_cell (process_sales_file ex_wms ex_plain) 0 ''MSKU'' = Some (Str ''M1'') \<and>
   output_cell (process_sales_file ex_wms ex_plain) 0 ''Quantity'' = Some NaN \<and>
   output_cell (process_sales_file ex_wms ex_plain) 0 ''Quantity'' \<noteq> Some (Num 1) \<and>
   map_of (df_rows ex_amazon_plain ! 0) ''FNSKU'' = Some (Str ''X1'') \<and>
   process_sales_file ex_wms ex_amazon_plain =
     Inr \<lparr>result_df = \<lparr>df_columns = [], df_rows = []\<rparr>, result_changes = []\<rparr>"
  by (simp add: ex_plain_def ex_amazon_plain_def ex_wms_def ex_mapping_def output_cell_def
      run_simps)

section \<open>Properties of the reconciliation\<close>

subsection \<open>One key of a batch on the spreadsheet ledger\<close>

lemma update_all_append:
  "update_all mc qc (xs @ ys) st =
     (case update_all mc qc xs st of Inl e \<Rightarrow> Inl e | Inr st' \<Rightarrow> update_all mc qc ys st')"
  by (induction xs arbitrary: st) (auto split: sum.splits)

lemma find_filter: "List.find P xs = (case filter P xs of [] \<Rightarrow> None | x # _ \<Rightarrow> Some x)"
  by (induction xs) auto

lemma as_int_Inr: "as_int c = Inr n \<longleftrightarrow> c = Num n"
  by (cases c) auto

lemma update_one_cases:
  assumes "update_one mc qc (k, s) st = Inr st'"
  obtains (missing) "List.find (msku_mask mc k) (ledger st) = None"
      "st' = st\<lparr>warned := warned st @ [Msku_not_found k]\<rparr>"
  | (found) r qty where "List.find (msku_mask mc k) (ledger st) = Some r"
      "map_of r qc = Some (Num qty)" "mc \<noteq> qc" "in_int64 s"
      "st' = \<lparr>ledger = map (\<lambda>row. if msku_mask mc k row
                                     then row_set qc (Num (wrap64 (qty - s))) row else row)
                         (ledger st),
              updated = updated st + 1,
              warned = warned st @ stock_warnings k (wrap64 (qty - s))\<rparr>"
proof (cases "List.find (msku_mask mc k) (ledger st)")
  case None
  with assms show ?thesis by (intro missing) (simp_all add: update_one_def)
next
  case (Some r)
  with assms obtain qty where q: "current_qty qc r = Inr qty"
    by (auto simp: update_one_def split: sum.splits)
  then have cell: "map_of r qc = Some (Num qty)"
    by (auto simp: current_qty_def as_int_Inr split: option.splits)
  from Some have "msku_mask mc k r" by (auto simp: find_Some_iff)
  with cell have "mc \<noteq> qc" by (auto simp: msku_mask_def)
  with Some q cell assms show ?thesis
    by (intro found[of r qty]) (auto simp: update_one_def Let_def split: if_splits)
qed

lemma mask_row_set: "mc \<noteq> qc \<Longrightarrow> msku_mask mc m (row_set qc v row) = msku_mask mc m row"
  by (simp add: msku_mask_def map_of_row_set)

lemma mask_unique: "msku_mask mc k row \<Longrightarrow> msku_mask mc m row \<Longrightarrow> k = m"
  by (simp add: msku_mask_def)

lemma filter_map_same:
  "(\<And>x. x \<in> set xs \<Longrightarrow> P (f x) = P x \<and> (P x \<longrightarrow> f x = x)) \<Longrightarrow>
   filter P (map f xs) = filter P xs"
  by (induction xs) auto

lemma filter_map_hit:
  "(\<And>x. x \<in> set xs \<Longrightarrow> P (g x) = P x) \<Longrightarrow>
   filter P (map (\<lambda>x. if P x then g x else x) xs) = map g (filter P xs)"
  by (induction xs) auto

lemma update_one_other:
  assumes "update_one mc qc (k, s) st = Inr st'" and "k \<noteq> m"
  shows "filter (msku_mask mc m) (ledger st') = filter (msku_mask mc m) (ledger st) \<and>
         filter (\<lambda>x. warning_msku x = m) (warned st') =
           filter (\<lambda>x. warning_msku x = m) (warned st)"
  using assms(1)
proof (cases rule: update_one_cases)
  case missing
  with \<open>k \<noteq> m\<close> show ?thesis by simp
next
  case (found r qty)
  have "filter (msku_mask mc m)
          (map (\<lambda>row. if msku_mask mc k row then row_set qc (Num (wrap64 (qty - s))) row else row) (ledger st)) =
        filter (msku_mask mc m) (ledger st)"
    using found(3) \<open>k \<noteq> m\<close>
    by (intro filter_map_same) (auto simp: mask_row_set dest: mask_unique)
  with found \<open>k \<noteq> m\<close> show ?thesis by (simp add: stock_warnings_def)
qed

lemma update_one_self:
  assumes "update_one mc qc (m, s) st = Inr st'"
    and "List.find (msku_mask mc m) (ledger st) = Some r" and "map_of r qc = Some (Num C)"
  shows "filter (msku_mask mc m) (ledger st') =
           map (row_set qc (Num (wrap64 (C - s)))) (filter (msku_mask mc m) (ledger st)) \<and>
         filter (\<lambda>x. warning_msku x = m) (warned st') =
           filter (\<lambda>x. warning_msku x = m) (warned st) @ stock_warnings m (wrap64 (C - s)) \<and>
         updated st' = updated st + 1"
  using assms(1)
proof (cases rule: update_one_cases)
  case missing
  with assms(2) show ?thesis by simp
next
  case (found r' qty)
  with assms(2,3) have "qty = C" by simp
  with found(5) have st: "st' =
      \<lparr>ledger = map (\<lambda>row. if msku_mask mc m row then row_set qc (Num (wrap64 (C - s))) row else row)
                 (ledger st),
       updated = updated st + 1,
       warned = warned st @ stock_warnings m (wrap64 (C - s))\<rparr>"
    by simp
  have "filter (msku_mask mc m)
          (map (\<lambda>row. if msku_mask mc m row then row_set qc (Num (wrap64 (C - s))) row else row) (ledger st)) =
        map (row_set qc (Num (wrap64 (C - s)))) (filter (msku_mask mc m) (ledger st))"
    using found(3) by (intro filter_map_hit) (simp add: mask_row_set)
  with st show ?thesis by (simp add: stock_warnings_def)
qed

lemma update_all_other:
  assumes "update_all mc qc cs st = Inr st'" and "m \<notin> fst ` set cs"
  shows "filter (msku_mask mc m) (ledger st') = filter (msku_mask mc m) (ledger st) \<and>
         filter (\<lambda>x. warning_msku x = m) (warned st') =
           filter (\<lambda>x. warning_msku x = m) (warned st)"
  using assms
proof (induction cs arbitrary: st)
  case Nil
  then show ?case by simp
next
  case (Cons c cs)
  obtain k s where c: "c = (k, s)" by (cases c)
  from Cons.prems c obtain st1 where
    one: "update_one mc qc (k, s) st = Inr st1" and rest: "update_all mc qc cs st1 = Inr st'"
    by (auto split: sum.splits)
  from Cons.prems c have "k \<noteq> m" and "m \<notin> fst ` set cs" by auto
  with update_one_other[OF one] Cons.IH[OF rest] show ?case by simp
qed

lemma update_all_at_key:
  assumes "update_all mc qc cs st = Inr st'" and "distinct (map fst cs)" and "(m, s) \<in> set cs"
    and "List.find (msku_mask mc m) (ledger st) = Some r" and "map_of r qc = Some (Num C)"
  shows "filter (msku_mask mc m) (ledger st') =
           map (row_set qc (Num (wrap64 (C - s)))) (filter (msku_mask mc m) (ledger st)) \<and>
         filter (\<lambda>x. warning_msku x = m) (warned st') =
           filter (\<lambda>x. warning_msku x = m) (warned st) @ stock_warnings m (wrap64 (C - s))"
  using assms
proof (induction cs arbitrary: st)
  case Nil
  then show ?case by simp
next
  case (Cons c cs)
  obtain k s' where c: "c = (k, s')" by (cases c)
  from Cons.prems(1) c obtain st1 where
    one: "update_one mc qc (k, s') st = Inr st1" and rest: "update_all mc qc cs st1 = Inr st'"
    by (auto split: sum.splits)
  show ?case
  proof (cases "k = m")
    case True
    with Cons.prems(2,3) c have s: "s' = s" and out: "m \<notin> fst ` set cs"
      by (auto simp: image_iff)
    from update_one_self[OF one[unfolded True s] Cons.prems(4,5)]
      update_all_other[OF rest out]
    show ?thesis by simp
  next
    case False
    with Cons.prems(3) c have mem: "(m, s) \<in> set cs" by auto
    from Cons.prems(2) have dist: "distinct (map fst cs)" by simp
    from update_one_other[OF one False] Cons.prems(4)
    have same: "filter (msku_mask mc m) (ledger st1) = filter (msku_mask mc m) (ledger st)"
      and "List.find (msku_mask mc m) (ledger st1) = Some r"
      by (simp_all add: find_filter)
    with Cons.IH[OF rest dist mem _ Cons.prems(5)] update_one_other[OF one False]
    show ?thesis by simp
  qed
qed

subsection \<open>One key of a batch on the product table\<close>

lemma find_update_first_same:
  "(\<And>x. P x \<Longrightarrow> P (f x)) \<Longrightarrow> List.find P (update_first P f xs) = map_option f (List.find P xs)"
  by (induction xs) auto

lemma find_update_first_other:
  "(\<And>x. P x \<Longrightarrow> \<not> Q x \<and> \<not> Q (f x)) \<Longrightarrow> List.find Q (update_first P f xs) = List.find Q xs"
  by (induction xs) auto

lemma db_update_fault:
  "db_update_inventory True now m D t r n s = ((False, Error_updating), rollback s)"
  by (simp add: db_update_inventory_def)

lemma db_update_stored:
  "stored (snd (db_update_inventory fault now m D t r n s)) = stored s"
  by (simp add: db_update_inventory_def rollback_def Let_def split: option.splits)

lemma db_update_missing:
  "\<not> fault \<Longrightarrow> db_stock (current s) m = None \<Longrightarrow>
   db_update_inventory fault now m D t r n s = ((False, Product_not_found m), s)"
  by (simp add: db_stock_def db_update_inventory_def split: option.splits)

lemma db_update_self:
  assumes "\<not> fault" and "db_stock (current s) m = Some C"
  shows "fst (db_update_inventory fault now m D t r n s) = (True, Updated m C (C + D)) \<and>
         db_stock (current (snd (db_update_inventory fault now m D t r n s))) m = Some (C + D)"
proof -
  from assms(2) obtain p where
    p: "List.find (\<lambda>p. p_msku p = m) (products (current s)) = Some p"
    and C: "current_stock p = C"
    by (auto simp: db_stock_def)
  have "List.find (\<lambda>p. p_msku p = m)
          (update_first (\<lambda>p. p_msku p = m)
             (\<lambda>p. p\<lparr>current_stock := C + D, updated_at := now\<rparr>) (products (current s))) =
        map_option (\<lambda>p. p\<lparr>current_stock := C + D, updated_at := now\<rparr>)
          (List.find (\<lambda>p. p_msku p = m) (products (current s)))"
    by (intro find_update_first_same) simp
  with p C assms(1) show ?thesis
    by (simp add: db_update_inventory_def db_stock_def Let_def)
qed

lemma db_update_other:
  assumes "\<not> fault" and "k \<noteq> m"
  shows "db_stock (current (snd (db_update_inventory fault now k D t r n s))) m =
         db_stock (current s) m"
proof (cases "List.find (\<lambda>p. p_msku p = k) (products (current s))")
  case None
  with assms(1) show ?thesis by (simp add: db_update_inventory_def)
next
  case (Some p)
  have "List.find (\<lambda>p. p_msku p = m)
          (update_first (\<lambda>p. p_msku p = k)
             (\<lambda>p. p\<lparr>current_stock := v, updated_at := now\<rparr>) (products (current s))) =
        List.find (\<lambda>p. p_msku p = m) (products (current s))" for v
    using assms(2) by (intro find_update_first_other) simp
  with Some assms(1) show ?thesis
    by (simp add: db_update_inventory_def db_stock_def Let_def)
qed

lemma db_apply_changes_step:
  "db_apply_changes faults clock b f ((k, t) # cs) (s, out) =
     db_apply_changes faults clock b f cs
       (snd (db_update_inventory (faults k) (clock k) k (- t) ''Sale'' (Some b)
               (Some (''Sales from '' @ f)) s),
        if fst (fst (db_update_inventory (faults k) (clock k) k (- t) ''Sale'' (Some b)
                       (Some (''Sales from '' @ f)) s))
        then out
        else out @ [snd (fst (db_update_inventory (faults k) (clock k) k (- t) ''Sale'' (Some b)
                                (Some (''Sales from '' @ f)) s))])"
  by (simp split: prod.splits)

lemma db_apply_stored:
  "stored (fst (db_apply_changes faults clock b f cs (s, out))) = stored s"
proof (induction cs arbitrary: s out)
  case Nil
  then show ?case by simp
next
  case (Cons c cs)
  obtain k t where c: "c = (k, t)" by (cases c)
  show ?case unfolding c db_apply_changes_step by (simp add: Cons.IH db_update_stored)
qed

lemma db_apply_other:
  "\<forall>k \<in> fst ` set cs. \<not> faults k \<Longrightarrow> m \<notin> fst ` set cs \<Longrightarrow>
   db_stock (current (fst (db_apply_changes faults clock b f cs (s, out)))) m =
   db_stock (current s) m"
proof (induction cs arbitrary: s out)
  case Nil
  then show ?case by simp
next
  case (Cons c cs)
  obtain k t where c: "c = (k, t)" by (cases c)
  with Cons.prems have "k \<noteq> m" "m \<notin> fst ` set cs" "\<not> faults k"
    "\<forall>k \<in> fst ` set cs. \<not> faults k" by auto
  then show ?case
    unfolding c db_apply_changes_step by (simp add: Cons.IH db_update_other)
qed

lemma db_apply_at_key:
  assumes "\<forall>k \<in> fst ` set cs. \<not> faults k"
    and "distinct (map fst cs)" and "(m, t) \<in> set cs" and "db_stock (current s) m = Some C"
  shows "db_stock (current (fst (db_apply_changes faults clock b f cs (s, out)))) m =
         Some (C - t)"
  using assms
proof (induction cs arbitrary: s out)
  case Nil
  then show ?case by simp
next
  case (Cons c cs)
  obtain k t' where c: "c = (k, t')" by (cases c)
  from Cons.prems(1) c have ok: "\<not> faults k" "\<forall>k \<in> fst ` set cs. \<not> faults k" by auto
  show ?case
  proof (cases "k = m")
    case True
    with Cons.prems(2,3) c have t: "t' = t" and out: "m \<notin> fst ` set cs"
      by (auto simp: image_iff)
    from db_update_self[OF _ Cons.prems(4), of "faults m"] ok(1) True
    have "db_stock (current (snd (db_update_inventory (faults m) (clock m) m (- t) ''Sale''
              (Some b) (Some (''Sales from '' @ f)) s))) m = Some (C - t)"
      by simp
    with out ok(2) show ?thesis
      unfolding c True t db_apply_changes_step by (simp add: db_apply_other)
  next
    case False
    with Cons.prems c have "(m, t) \<in> set cs" "distinct (map fst cs)" by auto
    with False Cons.prems(4) ok show ?thesis
      unfolding c db_apply_changes_step by (simp add: Cons.IH db_update_other)
  qed
qed

lemma db_apply_out_irrelevant:
  "fst (db_apply_changes faults clock b f cs (s, out)) =
   fst (db_apply_changes faults clock b f cs (s, out'))"
proof (induction cs arbitrary: s out out')
  case Nil
  then show ?case by simp
next
  case (Cons c cs)
  obtain k t where c: "c = (k, t)" by (cases c)
  show ?case unfolding c db_apply_changes_step by (rule Cons.IH)
qed

lemma db_apply_out_grows:
  "set out \<subseteq> set (snd (db_apply_changes faults clock b f cs (s, out)))"
proof (induction cs arbitrary: s out)
  case Nil
  then show ?case by simp
next
  case (Cons c cs)
  obtain k t where c: "c = (k, t)" by (cases c)
  define res where
    "res = db_update_inventory (faults k) (clock k) k (- t) ''Sale'' (Some b)
             (Some (''Sales from '' @ f)) s"
  define out' where "out' = (if fst (fst res) then out else out @ [snd (fst res)])"
  have step: "db_apply_changes faults clock b f (c # cs) (s, out) =
                db_apply_changes faults clock b f cs (snd res, out')"
    unfolding c db_apply_changes_step res_def out'_def ..
  have "set out \<subseteq> set out'" by (auto simp: out'_def)
  also have "\<dots> \<subseteq> set (snd (db_apply_changes faults clock b f cs (snd res, out')))"
    by (rule Cons.IH)
  finally show ?case unfolding step .
qed

lemma db_update_keeps_missing:
  assumes "db_stock (stored s) m = None" and "db_stock (current s) m = None"
  shows "db_stock (stored (snd (db_update_inventory fault now k D t r n s))) m = None \<and>
         db_stock (current (snd (db_update_inventory fault now k D t r n s))) m = None"
proof (cases fault)
  case True
  with assms show ?thesis by (simp add: db_update_fault rollback_def)
next
  case False
  show ?thesis
  proof (cases "k = m")
    case True
    with False assms show ?thesis by (simp add: db_update_missing)
  next
    case neq: False
    with False assms show ?thesis by (simp add: db_update_other db_update_stored)
  qed
qed

lemma db_apply_missing:
  assumes "\<not> faults m"
    and "db_stock (stored s) m = None" and "db_stock (current s) m = None"
  shows "fst (db_apply_changes faults clock b f (pre @ (m, t) # post) (s, out)) =
           fst (db_apply_changes faults clock b f (pre @ post) (s, out)) \<and>
         Product_not_found m \<in>
           set (snd (db_apply_changes faults clock b f (pre @ (m, t) # post) (s, out)))"
  using assms(2,3)
proof (induction pre arbitrary: s out)
  case Nil
  have "Product_not_found m \<in> set (out @ [Product_not_found m])" by simp
  with db_apply_out_grows[of "out @ [Product_not_found m]" faults clock b f post s]
  have "Product_not_found m \<in>
          set (snd (db_apply_changes faults clock b f post (s, out @ [Product_not_found m])))"
    by blast
  with Nil assms(1) show ?case
    by (simp add: db_update_missing
        db_apply_out_irrelevant[of faults clock b f post s "out @ _" out])
next
  case (Cons c pre)
  obtain k t' where c: "c = (k, t')" by (cases c)
  from db_update_keeps_missing[OF Cons.prems]
  have keep: "db_stock (stored (snd (db_update_inventory (faults k) (clock k) k (- t') ''Sale''
                 (Some b) (Some (''Sales from '' @ f)) s))) m = None"
    "db_stock (current (snd (db_update_inventory (faults k) (clock k) k (- t') ''Sale''
                 (Some b) (Some (''Sales from '' @ f)) s))) m = None"
    by simp_all
  from Cons.IH[OF keep] show ?case
    unfolding c append_Cons db_apply_changes_step by simp
qed





subsection \<open>The inventory update as a whole\<close>

lemma update_inventory_Inr:
  assumes "update_inventory w changes = Inr (rep, w')"
    and "find_msku_column (df_columns (current_inventory w)) = Some mc"
    and "find_quantity_column (df_columns (current_inventory w)) = Some qc"
    and "changes \<noteq> []"
  obtains st where
    "update_all mc qc changes
       \<lparr>ledger = df_rows (current_inventory w), updated = 0, warned = []\<rparr> = Inr st"
    "rep = Success (updated st) (warned st)"
    "w' = w\<lparr>current_inventory := (current_inventory w)\<lparr>df_rows := ledger st\<rparr>\<rparr>"
  using assms by (auto simp: update_inventory_def split: sum.splits)

lemma stock_of_filter:
  "stock_of mc qc rows m =
     (case filter (msku_mask mc m) rows of [] \<Rightarrow> None | r # _ \<Rightarrow> map_of r qc)"
  by (simp add: stock_of_def find_filter split: list.splits)

lemma stock_after_update_web:
  assumes run: "update_inventory w changes = Inr (rep, w')"
    and keys: "distinct (map fst changes)" and mem: "(m, s) \<in> set changes"
    and mc: "find_msku_column (df_columns (current_inventory w)) = Some mc"
    and qc: "find_quantity_column (df_columns (current_inventory w)) = Some qc"
    and stock: "stock_of mc qc (df_rows (current_inventory w)) m = Some (Num C)"
  shows "stock_of mc qc (df_rows (current_inventory w')) m = Some (Num (wrap64 (C - s))) \<and>
         (\<forall>r \<in> set (df_rows (current_inventory w')).
            msku_mask mc m r \<longrightarrow> map_of r qc = Some (Num (wrap64 (C - s)))) \<and>
         (\<exists>n ws. rep = Success n ws \<and>
            filter (\<lambda>x. warning_msku x = m) ws = stock_warnings m (wrap64 (C - s)))"
proof -
  from mem have "changes \<noteq> []" by auto
  with run mc qc obtain st where
    all: "update_all mc qc changes
            \<lparr>ledger = df_rows (current_inventory w), updated = 0, warned = []\<rparr> = Inr st"
    and rep: "rep = Success (updated st) (warned st)"
    and w': "w' = w\<lparr>current_inventory := (current_inventory w)\<lparr>df_rows := ledger st\<rparr>\<rparr>"
    by (rule update_inventory_Inr)
  from stock obtain r where
    r: "List.find (msku_mask mc m) (df_rows (current_inventory w)) = Some r"
    and C: "map_of r qc = Some (Num C)"
    by (auto simp: stock_of_def split: option.splits)
  from r obtain rs where
    old: "filter (msku_mask mc m) (df_rows (current_inventory w)) = r # rs"
    by (auto simp: find_filter split: list.splits)
  from update_all_at_key[OF all keys mem _ C] r
  have new: "filter (msku_mask mc m) (ledger st) =
               map (row_set qc (Num (wrap64 (C - s)))) (filter (msku_mask mc m) (df_rows (current_inventory w)))"
    and warn: "filter (\<lambda>x. warning_msku x = m) (warned st) = stock_warnings m (wrap64 (C - s))"
    by simp_all
  have "stock_of mc qc (ledger st) m = Some (Num (wrap64 (C - s)))"
    by (simp add: stock_of_filter new old map_of_row_set)
  moreover have "map_of x qc = Some (Num (wrap64 (C - s)))" if "x \<in> set (ledger st)" "msku_mask mc m x" for x
  proof -
    from that have "x \<in> set (filter (msku_mask mc m) (ledger st))" by simp
    then show ?thesis unfolding new by (auto simp: map_of_row_set)
  qed
  ultimately show ?thesis using rep warn by (simp add: w')
qed


lemma wrap64_id: "in_int64 x \<Longrightarrow> wrap64 x = x"
  by (simp add: in_int64_def wrap64_def)

lemmas ledger_simps =
  update_inventory_def find_msku_column_def find_quantity_column_def update_one_def
  msku_mask_def current_qty_def stock_warnings_def row_set_def stock_of_def Let_def
  in_int64_def wrap64_def

lemma ex_update:
  "update_inventory ex_wms ex_changes =
     Inr (Success 2 [Msku_not_found ''ZZZ999'', Low_stock ''M2'' 3],
          ex_wms\<lparr>current_inventory := ex_inventory_after\<rparr>)"
  by (simp add: ex_wms_def ex_inventory_def ex_inventory_after_def ex_changes_def ledger_simps)


lemma ex_update_edge:
  "update_inventory ex_wms_edge [(''M1'', 5)] =
     Inr (Success 1 [],
          ex_wms_edge\<lparr>current_inventory :=
            \<lparr>df_columns = [''Product Name'', ''msku'', ''Opening Stock'', ''Buffer Stock''],
             df_rows =
               [[(''Product Name'', Str ''Widget''), (''msku'', Str ''M1''),
                 (''Opening Stock'', Num 9223372036854775804), (''Buffer Stock'', Num 90)]]\<rparr>\<rparr>)"
  by (simp add: ex_wms_edge_def ledger_simps)




text \<open>
  Claim C7, as amended. The update writes the new stock \<open>N\<close> of an MSKU, which is
  \<open>C - s\<close> in 64-bit arithmetic, and the warnings of the report about that MSKU are: one
  ``negative stock'' warning when \<open>N\<close> is below \<open>0\<close>, one ``low stock'' warning when \<open>N\<close>
  is at least \<open>0\<close> and below the fixed threshold \<open>5\<close>, and none otherwise. The buffer of the
  product is not read.
\<close>

theorem stock_classification:
  assumes "update_inventory w changes = Inr (rep, w')"
    and "distinct (map fst changes)" and "(m, s) \<in> set changes"
    and "find_msku_column (df_columns (current_inventory w)) = Some mc"
    and "find_quantity_column (df_columns (current_inventory w)) = Some qc"
    and "stock_of mc qc (df_rows (current_inventory w)) m = Some (Num C)"
  shows "\<exists>n ws N. rep = Success n ws \<and> N = wrap64 (C - s) \<and>
           stock_of mc qc (df_rows (current_inventory w')) m = Some (Num N) \<and>
           filter (\<lambda>x. warning_msku x = m) ws =
             (if N < 0 then [Negative_stock m N]
              else if N < 5 then [Low_stock m N]
              else []) \<and>
           (in_int64 (C - s) \<longrightarrow> N = C - s)"
  using stock_after_update_web[OF assms] wrap64_id[of "C - s"]
  by (auto simp: stock_warnings_def)

text \<open>
  \<open>M2\<close> falls from \<open>6\<close> to \<open>3\<close> and is reported low. The product at
  \<open>- 9223372036854775807\<close> that sells five is written as \<open>9223372036854775804\<close> and gets no
  warning.
\<close>

theorem stock_classification_witness:
  "update_inventory ex_wms ex_changes =
     Inr (Success 2 [Msku_not_found ''ZZZ999'', Low_stock ''M2'' 3],
          ex_wms\<lparr>current_inventory := ex_inventory_after\<rparr>) \<and>
   distinct (map fst ex_changes) \<and>
   find_msku_column (df_columns ex_inventory) = Some ''msku'' \<and>
   find_quantity_column (df_columns ex_inventory) = Some ''Opening Stock'' \<and>
   stock_of ''msku'' ''Opening Stock'' (df_rows ex_inventory) ''M2'' = Some (Num 6) \<and>
   wrap64 (6 - 3) = 3 \<and>
   filter (\<lambda>x. warning_msku x = ''M2'') [Msku_not_found ''ZZZ999'', Low_stock ''M2'' 3] =
     [Low_stock ''M2'' 3] \<and>
   report_of (update_inventory ex_wms_edge [(''M1'', 5)]) = Some (Success 1 []) \<and>
   wrap64 (- 9223372036854775807 - 5) = 9223372036854775804"
  using stock_classification [of ex_wms ex_changes
      "Success 2 [Msku_not_found ''ZZZ999'', Low_stock ''M2'' 3]"
      "ex_wms\<lparr>current_inventory := ex_inventory_after\<rparr>" "''M2''" 3 "''msku''"
      "''Opening Stock''" 6]
    ex_update ex_update_edge
  by (simp add: ex_wms_def ex_inventory_def ex_changes_def report_of_def
      find_msku_column_def find_quantity_column_def stock_of_def msku_mask_def wrap64_def)

text \<open>
  \<open>M1\<close> has the buffer \<open>90\<close> and falls to \<open>82\<close>: low by the buffer, but the report
  has no warning. \<open>M2\<close> has the buffer \<open>2\<close> and falls to \<open>3\<close>: normal by the buffer,
  but reported low.
\<close>

theorem stock_classification_counterexample:
  "stock_of ''msku'' ''Opening Stock'' (df_rows ex_inventory) ''M1'' = Some (Num 85) \<and>
   stock_of ''msku'' ''Buffer Stock'' (df_rows ex_inventory) ''M1'' = Some (Num 90) \<and>
   report_of (update_inventory ex_wms [(''M1'', 3)]) = Some (Success 1 []) \<and>
   stock_of ''msku'' ''Opening Stock'' (ledger_of (update_inventory ex_wms [(''M1'', 3)])) ''M1'' =
     Some (Num 82) \<and>
   spec_classify 82 90 = Low \<and>
   stock_of ''msku'' ''Opening Stock'' (df_rows ex_inventory) ''M2'' = Some (Num 6) \<and>
   stock_of ''msku'' ''Buffer Stock'' (df_rows ex_inventory) ''M2'' = Some (Num 2) \<and>
   report_of (update_inventory ex_wms [(''M2'', 3)]) = Some (Success 1 [Low_stock ''M2'' 3]) \<and>
   stock_of ''msku'' ''Opening Stock'' (ledger_of (update_inventory ex_wms [(''M2'', 3)])) ''M2'' =
     Some (Num 3) \<and>
   spec_classify 3 2 = Normal"
  by (simp add: ex_wms_def ex_inventory_def report_of_def ledger_of_def spec_classify_def
      ledger_simps)

lemma update_one_missing:
  "List.find (msku_mask mc m) (ledger st) = None \<Longrightarrow>
   update_one mc qc (m, s) st = Inr (st\<lparr>warned := warned st @ [Msku_not_found m]\<rparr>)"
  by (simp add: update_one_def)

lemma update_one_warned_irrelevant:
  assumes "update_one mc qc c st = Inr st'"
    and "ledger st2 = ledger st" and "updated st2 = updated st"
  shows "\<exists>st2'. update_one mc qc c st2 = Inr st2' \<and>
           ledger st2' = ledger st' \<and> updated st2' = updated st'"
proof -
  obtain k s where c: "c = (k, s)" by (cases c)
  from assms(1)[unfolded c] show ?thesis
  proof (cases rule: update_one_cases)
    case missing
    with assms(2,3) show ?thesis by (simp add: c update_one_def)
  next
    case (found r qty)
    with assms(2,3) show ?thesis by (simp add: c update_one_def current_qty_def Let_def)
  qed
qed

lemma update_all_warned_irrelevant:
  assumes "update_all mc qc cs st = Inr st'"
    and "ledger st2 = ledger st" and "updated st2 = updated st"
  shows "\<exists>st2'. update_all mc qc cs st2 = Inr st2' \<and>
           ledger st2' = ledger st' \<and> updated st2' = updated st'"
  using assms
proof (induction cs arbitrary: st st2)
  case Nil
  then show ?case by simp
next
  case (Cons c cs)
  from Cons.prems(1) obtain st1 where
    one: "update_one mc qc c st = Inr st1" and rest: "update_all mc qc cs st1 = Inr st'"
    by (auto split: sum.splits)
  from update_one_warned_irrelevant[OF one Cons.prems(2,3)] obtain st21 where
    one2: "update_one mc qc c st2 = Inr st21"
    and same: "ledger st21 = ledger st1" "updated st21 = updated st1"
    by blast
  from Cons.IH[OF rest same] one2 show ?case by simp
qed

lemma update_one_warned_grows:
  assumes "update_one mc qc c st = Inr st'"
  shows "set (warned st) \<subseteq> set (warned st')"
proof -
  obtain k s where c: "c = (k, s)" by (cases c)
  from assms[unfolded c] show ?thesis
    by (cases rule: update_one_cases) auto
qed

lemma update_all_warned_grows:
  "update_all mc qc cs st = Inr st' \<Longrightarrow> set (warned st) \<subseteq> set (warned st')"
proof (induction cs arbitrary: st)
  case Nil
  then show ?case by simp
next
  case (Cons c cs)
  from Cons.prems obtain st1 where
    one: "update_one mc qc c st = Inr st1" and rest: "update_all mc qc cs st1 = Inr st'"
    by (auto split: sum.splits)
  from update_one_warned_grows[OF one] Cons.IH[OF rest] show ?case by blast
qed

lemma no_match_preserved:
  assumes "update_one mc qc c st = Inr st'"
    and "List.find (msku_mask mc m) (ledger st) = None"
  shows "List.find (msku_mask mc m) (ledger st') = None"
proof -
  obtain k s where c: "c = (k, s)" by (cases c)
  show ?thesis
  proof (cases "k = m")
    case True
    with assms c show ?thesis by (auto simp: update_one_missing)
  next
    case False
    from update_one_other[OF assms(1)[unfolded c] False] assms(2)
    show ?thesis by (simp add: find_filter)
  qed
qed

lemma update_all_missing:
  assumes "update_all mc qc (pre @ (m, s) # post) st = Inr st'"
    and "List.find (msku_mask mc m) (ledger st) = None"
  shows "Msku_not_found m \<in> set (warned st') \<and>
         (\<exists>st''. update_all mc qc (pre @ post) st = Inr st'' \<and>
            ledger st'' = ledger st' \<and> updated st'' = updated st')"
  using assms
proof (induction pre arbitrary: st)
  case Nil
  let ?st1 = "st\<lparr>warned := warned st @ [Msku_not_found m]\<rparr>"
  from Nil have rest: "update_all mc qc post ?st1 = Inr st'"
    by (simp add: update_one_missing)
  from update_all_warned_grows[OF rest] have "Msku_not_found m \<in> set (warned st')" by auto
  moreover from update_all_warned_irrelevant[OF rest, of st]
  have "\<exists>st''. update_all mc qc post st = Inr st'' \<and>
          ledger st'' = ledger st' \<and> updated st'' = updated st'"
    by simp
  ultimately show ?case by simp
next
  case (Cons c pre)
  from Cons.prems(1) obtain st1 where
    one: "update_one mc qc c st = Inr st1"
    and rest: "update_all mc qc (pre @ (m, s) # post) st1 = Inr st'"
    by (auto split: sum.splits)
  from Cons.IH[OF rest no_match_preserved[OF one Cons.prems(2)]] one
  show ?case by simp
qed


lemma missing_msku_web:
  assumes run: "update_inventory w (pre @ (m, s) # post) = Inr (rep, w')"
    and mc: "find_msku_column (df_columns (current_inventory w)) = Some mc"
    and qc: "find_quantity_column (df_columns (current_inventory w)) = Some qc"
    and none: "List.find (msku_mask mc m) (df_rows (current_inventory w)) = None"
  shows "\<exists>n ws. rep = Success n ws \<and> Msku_not_found m \<in> set ws \<and>
           (\<exists>rep''. update_inventory w (pre @ post) = Inr (rep'', w') \<and>
              (pre @ post \<noteq> [] \<longrightarrow> updated_items rep'' = n))"
proof -
  let ?st0 = "\<lparr>ledger = df_rows (current_inventory w), updated = 0, warned = []\<rparr>"
  from run mc qc obtain st where
    all: "update_all mc qc (pre @ (m, s) # post) ?st0 = Inr st"
    and rep: "rep = Success (updated st) (warned st)"
    and w': "w' = w\<lparr>current_inventory := (current_inventory w)\<lparr>df_rows := ledger st\<rparr>\<rparr>"
    by (rule update_inventory_Inr) simp
  from update_all_missing[OF all] none obtain st'' where
    warn: "Msku_not_found m \<in> set (warned st)"
    and rest: "update_all mc qc (pre @ post) ?st0 = Inr st''"
    and same: "ledger st'' = ledger st" "updated st'' = updated st"
    by auto
  have "\<exists>rep''. update_inventory w (pre @ post) = Inr (rep'', w') \<and>
          (pre @ post \<noteq> [] \<longrightarrow> updated_items rep'' = updated st)"
  proof (cases "pre @ post = []")
    case True
    with rest same have "ledger st = df_rows (current_inventory w)" by auto
    with True show ?thesis by (simp add: update_inventory_def w')
  next
    case False
    with rest same mc qc show ?thesis by (auto simp: update_inventory_def w')
  qed
  with rep warn show ?thesis by simp
qed

text \<open>
  Claim C5, as amended. When a key of the batch has no row in the ledger, the report carries
  the warning ``MSKU not found'' for it, and the processor after the batch, like the number
  of updated items, is what the batch without that key gives; every other key of the batch
  that has a row ends with its stock less the quantity sold (in 64-bit arithmetic); and the
  step of the loop for the missing key adds the warning and changes neither the ledger nor
  the count. An update of the database service that raises no exception refuses an unknown
  product without touching the session; in a batch it is printed as refused, the session
  after the batch is the one that the batch without that key gives, and when no update of
  the batch raises every other key that is a product ends with its stock less its total.
\<close>

theorem missing_msku_skipped:
  "(update_inventory w (pre @ (m, s) # post) = Inr (rep, w') \<and>
    find_msku_column (df_columns (current_inventory w)) = Some mc \<and>
    find_quantity_column (df_columns (current_inventory w)) = Some qc \<and>
    List.find (msku_mask mc m) (df_rows (current_inventory w)) = None \<longrightarrow>
      (\<exists>n ws. rep = Success n ws \<and> Msku_not_found m \<in> set ws \<and>
         (\<exists>rep''. update_inventory w (pre @ post) = Inr (rep'', w') \<and>
            (pre @ post \<noteq> [] \<longrightarrow> updated_items rep'' = n)))) \<and>
   (update_inventory w (pre @ (m, s) # post) = Inr (rep, w') \<and>
    find_msku_column (df_columns (current_inventory w)) = Some mc \<and>
    find_quantity_column (df_columns (current_inventory w)) = Some qc \<and>
    distinct (map fst (pre @ (m, s) # post)) \<and> (m', s') \<in> set (pre @ post) \<and>
    stock_of mc qc (df_rows (current_inventory w)) m' = Some (Num C') \<longrightarrow>
      stock_of mc qc (df_rows (current_inventory w')) m' = Some (Num (wrap64 (C' - s')))) \<and>
   (List.find (msku_mask mc m) (ledger st) = None \<longrightarrow>
      update_one mc qc (m, s) st = Inr (st\<lparr>warned := warned st @ [Msku_not_found m]\<rparr>)) \<and>
   (\<not> fault \<and> db_stock (current ss) m = None \<longrightarrow>
      db_update_inventory fault now m D mtype ref note ss =
        ((False, Product_not_found m), ss)) \<and>
   (\<not> faults m \<and> db_stock (stored ss) m = None \<and> db_stock (current ss) m = None \<longrightarrow>
      Product_not_found m \<in>
        set (snd (db_apply_changes faults clock bid fname (before @ (m, tq) # after)
          (ss, out))) \<and>
      fst (db_apply_changes faults clock bid fname (before @ (m, tq) # after) (ss, out)) =
        fst (db_apply_changes faults clock bid fname (before @ after) (ss, out))) \<and>
   ((\<forall>k \<in> fst ` set (before @ (m, tq) # after). \<not> faults k) \<and>
    distinct (map fst (before @ (m, tq) # after)) \<and> (k', t') \<in> set (before @ after) \<and>
    db_stock (current ss) k' = Some C'' \<longrightarrow>
      db_stock (current (fst (db_apply_changes faults clock bid fname
        (before @ (m, tq) # after) (ss, out)))) k' = Some (C'' - t'))"
proof (intro conjI impI)
  assume "update_inventory w (pre @ (m, s) # post) = Inr (rep, w') \<and>
    find_msku_column (df_columns (current_inventory w)) = Some mc \<and>
    find_quantity_column (df_columns (current_inventory w)) = Some qc \<and>
    List.find (msku_mask mc m) (df_rows (current_inventory w)) = None"
  then show "\<exists>n ws. rep = Success n ws \<and> Msku_not_found m \<in> set ws \<and>
         (\<exists>rep''. update_inventory w (pre @ post) = Inr (rep'', w') \<and>
            (pre @ post \<noteq> [] \<longrightarrow> updated_items rep'' = n))"
    using missing_msku_web[of w pre m s post rep w' mc qc] by blast
next
  assume h: "update_inventory w (pre @ (m, s) # post) = Inr (rep, w') \<and>
    find_msku_column (df_columns (current_inventory w)) = Some mc \<and>
    find_quantity_column (df_columns (current_inventory w)) = Some qc \<and>
    distinct (map fst (pre @ (m, s) # post)) \<and> (m', s') \<in> set (pre @ post) \<and>
    stock_of mc qc (df_rows (current_inventory w)) m' = Some (Num C')"
  then have "(m', s') \<in> set (pre @ (m, s) # post)" by auto
  with h show "stock_of mc qc (df_rows (current_inventory w')) m' =
      Some (Num (wrap64 (C' - s')))"
    using stock_after_update_web[of w "pre @ (m, s) # post" rep w' m' s' mc qc C'] by blast
next
  assume "List.find (msku_mask mc m) (ledger st) = None"
  then show "update_one mc qc (m, s) st = Inr (st\<lparr>warned := warned st @ [Msku_not_found m]\<rparr>)"
    by (rule update_one_missing)
next
  assume "\<not> fault \<and> db_stock (current ss) m = None"
  then show "db_update_inventory fault now m D mtype ref note ss =
        ((False, Product_not_found m), ss)"
    using db_update_missing[of fault ss m] by blast
next
  assume h: "\<not> faults m \<and> db_stock (stored ss) m = None \<and> db_stock (current ss) m = None"
  then have a: "\<not> faults m" and b: "db_stock (stored ss) m = None"
    and c: "db_stock (current ss) m = None" by simp_all
  from db_apply_missing[of faults m ss clock bid fname before tq after out] a b c
  show "Product_not_found m \<in>
        set (snd (db_apply_changes faults clock bid fname (before @ (m, tq) # after)
          (ss, out)))"
    and "fst (db_apply_changes faults clock bid fname (before @ (m, tq) # after) (ss, out)) =
        fst (db_apply_changes faults clock bid fname (before @ after) (ss, out))"
    by simp_all
next
  assume h: "(\<forall>k \<in> fst ` set (before @ (m, tq) # after). \<not> faults k) \<and>
    distinct (map fst (before @ (m, tq) # after)) \<and> (k', t') \<in> set (before @ after) \<and>
    db_stock (current ss) k' = Some C''"
  then have "(k', t') \<in> set (before @ (m, tq) # after)" by auto
  with h show "db_stock (current (fst (db_apply_changes faults clock bid fname
        (before @ (m, tq) # after) (ss, out)))) k' = Some (C'' - t')"
    using db_apply_at_key[of "before @ (m, tq) # after" faults k' t' ss C'' clock bid fname out]
    by blast
qed

text \<open>The unknown \<open>ZZZ999\<close> between the updates of \<open>M1\<close> and \<open>M2\<close>.\<close>

theorem missing_msku_skipped_witness:
  "update_inventory ex_wms ex_changes =
     Inr (Success 2 [Msku_not_found ''ZZZ999'', Low_stock ''M2'' 3],
          ex_wms\<lparr>current_inventory := ex_inventory_after\<rparr>) \<and>
   ex_changes = [(''M1'', 3)] @ (''ZZZ999'', 1) # [(''M2'', 3)] \<and>
   List.find (msku_mask ''msku'' ''ZZZ999'') (df_rows ex_inventory) = None \<and>
   update_inventory ex_wms ([(''M1'', 3)] @ [(''M2'', 3)]) =
     Inr (Success 2 [Low_stock ''M2'' 3], ex_wms\<lparr>current_inventory := ex_inventory_after\<rparr>) \<and>
   stock_of ''msku'' ''Opening Stock'' (df_rows ex_inventory) ''M2'' = Some (Num 6) \<and>
   stock_of ''msku'' ''Opening Stock'' (df_rows ex_inventory_after) ''M2'' =
     Some (Num (wrap64 (6 - 3))) \<and>
   update_one ''msku'' ''Opening Stock'' (''ZZZ999'', 1)
       \<lparr>ledger = df_rows ex_inventory, updated = 0, warned = []\<rparr> =
     Inr \<lparr>ledger = df_rows ex_inventory, updated = 0, warned = [Msku_not_found ''ZZZ999'']\<rparr> \<and>
   db_stock ex_db ''ZZZ999'' = None \<and>
   db_update_inventory False 200 ''ZZZ999'' (- 1) ''Sale'' None None (begin_session ex_db) =
     ((False, Product_not_found ''ZZZ999''), begin_session ex_db) \<and>
   snd (db_apply_changes (\<lambda>m. False) (\<lambda>m. 200) ''B1'' ''sales.csv'' ex_changes
     (begin_session ex_db, [])) = [Product_not_found ''ZZZ999''] \<and>
   fst (db_apply_changes (\<lambda>m. False) (\<lambda>m. 200) ''B1'' ''sales.csv'' ex_changes
     (begin_session ex_db, [])) =
     fst (db_apply_changes (\<lambda>m. False) (\<lambda>m. 200) ''B1'' ''sales.csv''
       [(''M1'', 3), (''M2'', 3)] (begin_session ex_db, [])) \<and>
   db_stock ex_db ''M2'' = Some 6 \<and>
   db_stock (current (fst (db_apply_changes (\<lambda>m. False) (\<lambda>m. 200) ''B1'' ''sales.csv''
     ex_changes (begin_session ex_db, [])))) ''M2'' = Some 3"
  using missing_msku_skipped [of ex_wms "[(''M1'', 3)]" "''ZZZ999''" 1 "[(''M2'', 3)]"
      "Success 2 [Msku_not_found ''ZZZ999'', Low_stock ''M2'' 3]"
      "ex_wms\<lparr>current_inventory := ex_inventory_after\<rparr>" "''msku''" "''Opening Stock''"
      "''M2''" 3 6 "\<lparr>ledger = df_rows ex_inventory, updated = 0, warned = []\<rparr>"
      False "begin_session ex_db" 200 "- 1" "''Sale''" None None "\<lambda>m. False"
      "\<lambda>m. 200" "''B1''" "''sales.csv''" "[(''M1'', 3)]" 1 "[(''M2'', 3)]" "[]"
      "''M2''" 3 6]
    ex_update
  by (simp add: ex_wms_def ex_inventory_def ex_inventory_after_def ex_changes_def ex_db_def
      ledger_simps db_update_inventory_def db_stock_def begin_session_def)

text \<open>
  Where the amendment is needed. When the update of the unknown \<open>ZZZ999\<close> raises, the
  answer is ``Error updating inventory'' and not ``not found'', and the rollback takes the
  update of \<open>M1\<close> before it away: \<open>M1\<close> is back at \<open>85\<close>, and the session is not the one
  that the batch without \<open>ZZZ999\<close> gives.
\<close>

theorem missing_msku_skipped_counterexample:
  "db_stock ex_db ''ZZZ999'' = None \<and>
   db_update_inventory True 200 ''ZZZ999'' (- 1) ''Sale'' None None (begin_session ex_db) =
     ((False, Error_updating), begin_session ex_db) \<and>
   snd (db_apply_changes (\<lambda>m. m = ''ZZZ999'') (\<lambda>m. 200) ''B1'' ''sales.csv''
     [(''M1'', 3), (''ZZZ999'', 1)] (begin_session ex_db, [])) = [Error_updating] \<and>
   db_stock (current (fst (db_apply_changes (\<lambda>m. m = ''ZZZ999'') (\<lambda>m. 200) ''B1''
     ''sales.csv'' [(''M1'', 3), (''ZZZ999'', 1)] (begin_session ex_db, [])))) ''M1'' =
     Some 85 \<and>
   db_stock (current (fst (db_apply_changes (\<lambda>m. m = ''ZZZ999'') (\<lambda>m. 200) ''B1''
     ''sales.csv'' [(''M1'', 3)] (begin_session ex_db, [])))) ''M1'' = Some 82 \<and>
   fst (db_apply_changes (\<lambda>m. m = ''ZZZ999'') (\<lambda>m. 200) ''B1'' ''sales.csv''
     [(''M1'', 3), (''ZZZ999'', 1)] (begin_session ex_db, [])) \<noteq>
   fst (db_apply_changes (\<lambda>m. m = ''ZZZ999'') (\<lambda>m. 200) ''B1'' ''sales.csv''
     [(''M1'', 3)] (begin_session ex_db, []))"
  by (simp add: ex_db_def db_stock_def db_update_inventory_def begin_session_def
      rollback_def)

subsection \<open>What an update leaves alone\<close>

lemma row_frame_refl: "row_frame mc qc K r r"
  by (simp add: row_frame_def)

lemma row_frame_trans:
  assumes "row_frame mc qc {k} a b" and "row_frame mc qc K b c"
  shows "row_frame mc qc (insert k K) a c"
  using assms by (auto simp: row_frame_def)

lemma update_one_frame:
  assumes "update_one mc qc (k, s) st = Inr st'"
  shows "list_all2 (row_frame mc qc {k}) (ledger st) (ledger st')"
  using assms
proof (cases rule: update_one_cases)
  case missing
  then show ?thesis by (simp add: list_all2_same row_frame_refl)
next
  case (found r qty)
  then show ?thesis
    by (simp add: list_all2_map2 list_all2_same row_frame_def map_of_row_set)
qed

lemma update_all_frame:
  assumes "update_all mc qc cs st = Inr st'"
  shows "list_all2 (row_frame mc qc (fst ` set cs)) (ledger st) (ledger st')"
  using assms
proof (induction cs arbitrary: st)
  case Nil
  then show ?case by (simp add: list_all2_same row_frame_refl)
next
  case (Cons c cs)
  obtain k s where c: "c = (k, s)" by (cases c)
  from Cons.prems c obtain st1 where
    one: "update_one mc qc (k, s) st = Inr st1" and rest: "update_all mc qc cs st1 = Inr st'"
    by (auto split: sum.splits)
  have "list_all2 (row_frame mc qc (insert k (fst ` set cs))) (ledger st) (ledger st')"
    using update_one_frame[OF one] Cons.IH[OF rest]
    by (rule list_all2_trans[rotated]) (rule row_frame_trans)
  then show ?case by (simp add: c)
qed

lemma product_frame_refl: "product_frame K p p"
  by (simp add: product_frame_def)

lemma product_frame_mono: "product_frame K a b \<Longrightarrow> K \<subseteq> L \<Longrightarrow> product_frame L a b"
  by (auto simp: product_frame_def)

lemma product_frame_trans:
  assumes "product_frame K a b" and "product_frame L b c"
  shows "product_frame (K \<union> L) a c"
proof -
  from assms have b: "b = a\<lparr>current_stock := current_stock b, updated_at := updated_at b\<rparr>"
    and c: "c = b\<lparr>current_stock := current_stock c, updated_at := updated_at c\<rparr>"
    by (simp_all add: product_frame_def)
  have "c = a\<lparr>current_stock := current_stock c, updated_at := updated_at c\<rparr>"
    by (subst c, subst b) simp
  moreover have "c = a" if "p_msku a \<notin> K \<union> L"
  proof -
    from that assms(1) have "b = a" by (simp add: product_frame_def)
    with that assms(2) show ?thesis by (simp add: product_frame_def)
  qed
  ultimately show ?thesis by (simp add: product_frame_def)
qed

lemma update_first_frame:
  "(\<And>x. R x x) \<Longrightarrow> (\<And>x. P x \<Longrightarrow> R x (f x)) \<Longrightarrow> list_all2 R xs (update_first P f xs)"
  by (induction xs) (auto simp: list_all2_same)

lemma db_update_frame:
  assumes "\<not> fault"
  shows "list_all2 (product_frame {k}) (products (current s))
     (products (current (snd (db_update_inventory fault now k D t r n s))))"
proof (cases "List.find (\<lambda>p. p_msku p = k) (products (current s))")
  case None
  with assms show ?thesis
    by (simp add: db_update_inventory_def list_all2_same product_frame_refl)
next
  case (Some p)
  have "list_all2 (product_frame {k}) (products (current s))
          (update_first (\<lambda>p. p_msku p = k)
             (\<lambda>p. p\<lparr>current_stock := v, updated_at := now\<rparr>) (products (current s)))" for v
    by (intro update_first_frame) (simp_all add: product_frame_def)
  with Some assms show ?thesis by (simp add: db_update_inventory_def Let_def)
qed

lemma list_all2_frame_mono:
  "list_all2 (product_frame K) xs ys \<Longrightarrow> K \<subseteq> L \<Longrightarrow> list_all2 (product_frame L) xs ys"
  by (erule list_all2_mono) (rule product_frame_mono)

lemma db_update_frame_base:
  assumes st: "list_all2 (product_frame K) base (products (stored s))"
    and cu: "list_all2 (product_frame K) base (products (current s))"
  shows "list_all2 (product_frame (insert k K)) base
     (products (current (snd (db_update_inventory fault now k D t r n s))))"
proof (cases fault)
  case True
  then have "current (snd (db_update_inventory fault now k D t r n s)) = stored s"
    by (simp add: db_update_inventory_def rollback_def)
  with list_all2_frame_mono[OF st, of "insert k K"] show ?thesis by auto
next
  case False
  have "list_all2 (product_frame (K \<union> {k})) base
     (products (current (snd (db_update_inventory fault now k D t r n s))))"
    using cu db_update_frame[OF False, of k s now D t r n]
    by (rule list_all2_trans[rotated]) (rule product_frame_trans)
  then show ?thesis by simp
qed

lemma db_apply_frame_base:
  assumes "list_all2 (product_frame K) base (products (stored s))"
    and "list_all2 (product_frame K) base (products (current s))"
  shows "list_all2 (product_frame (K \<union> fst ` set cs)) base
     (products (current (fst (db_apply_changes faults clock b f cs (s, out)))))"
  using assms
proof (induction cs arbitrary: s out K)
  case Nil
  then show ?case by simp
next
  case (Cons c cs)
  obtain k t where c: "c = (k, t)" by (cases c)
  define res where
    "res = db_update_inventory (faults k) (clock k) k (- t) ''Sale'' (Some b)
             (Some (''Sales from '' @ f)) s"
  define out' where "out' = (if fst (fst res) then out else out @ [snd (fst res)])"
  have step: "db_apply_changes faults clock b f (c # cs) (s, out) =
                db_apply_changes faults clock b f cs (snd res, out')"
    unfolding c db_apply_changes_step res_def out'_def ..
  have "stored (snd res) = stored s"
    unfolding res_def by (rule db_update_stored)
  with list_all2_frame_mono[OF Cons.prems(1), of "insert k K"]
  have st: "list_all2 (product_frame (insert k K)) base (products (stored (snd res)))"
    by auto
  have cu: "list_all2 (product_frame (insert k K)) base (products (current (snd res)))"
    unfolding res_def by (rule db_update_frame_base[OF Cons.prems])
  from Cons.IH[OF st cu, of out'] show ?case unfolding step by (simp add: c)
qed

lemma db_apply_frame:
  "list_all2 (product_frame (fst ` set cs)) (products db)
     (products (current (fst (db_apply_changes faults clock b f cs (begin_session db, out)))))"
  using db_apply_frame_base[of "{}" "products db" "begin_session db" cs faults clock b f out]
  by (simp add: begin_session_def list_all2_same product_frame_refl)

lemma db_update_frame_begin:
  "list_all2 (product_frame {k}) (products db)
     (products (current (snd (db_update_inventory fault now k D t r n (begin_session db)))))"
  using db_update_frame_base[of "{}" "products db" "begin_session db" k fault now D t r n]
  by (simp add: begin_session_def list_all2_same product_frame_refl)

text \<open>
  Claim C10, as amended. An update of the spreadsheet ledger keeps the tables, the columns
  and the number and order of the rows; in every row all cells outside the stock column stay
  as they were, and a row whose MSKU is no key of the change dictionary stays as it was;
  without an MSKU or stock column nothing changes at all. An update of the product table,
  in a session begun on a database, keeps every product whose MSKU is no key, and changes
  of the others the current stock and the time of the last update only, whether or not an
  update raises; so does an update that does not raise in any session. The tables as of the
  last commit are not touched.
\<close>

theorem inventory_frame:
  "(update_inventory w changes = Inr (rep, w') \<longrightarrow>
      mapping_data w' = mapping_data w \<and> combo_mapping w' = combo_mapping w \<and>
      df_columns (current_inventory w') = df_columns (current_inventory w) \<and>
      (\<forall>mc qc. find_msku_column (df_columns (current_inventory w)) = Some mc \<and>
               find_quantity_column (df_columns (current_inventory w)) = Some qc \<longrightarrow>
         list_all2 (row_frame mc qc (fst ` set changes))
           (df_rows (current_inventory w)) (df_rows (current_inventory w'))) \<and>
      (find_msku_column (df_columns (current_inventory w)) = None \<or>
       find_quantity_column (df_columns (current_inventory w)) = None \<longrightarrow> w' = w)) \<and>
   list_all2 (product_frame {m}) (products db)
     (products (current (snd (db_update_inventory fault now m D mtype ref note
        (begin_session db))))) \<and>
   list_all2 (product_frame (fst ` set totals)) (products db)
     (products (current (fst (db_apply_changes faults clock bid fname totals
        (begin_session db, out))))) \<and>
   (\<not> fault \<longrightarrow>
      list_all2 (product_frame {m}) (products (current ss))
        (products (current (snd (db_update_inventory fault now m D mtype ref note ss))))) \<and>
   stored (snd (db_update_inventory fault now m D mtype ref note ss)) = stored ss \<and>
   stored (fst (db_apply_changes faults clock bid fname totals (ss, out))) = stored ss"
proof (intro conjI impI allI)
  assume run: "update_inventory w changes = Inr (rep, w')"
  then show "mapping_data w' = mapping_data w" and "combo_mapping w' = combo_mapping w"
    and "df_columns (current_inventory w') = df_columns (current_inventory w)"
    by (auto simp: update_inventory_def split: if_splits option.splits sum.splits)
  {
    fix mc qc
    assume cols: "find_msku_column (df_columns (current_inventory w)) = Some mc \<and>
               find_quantity_column (df_columns (current_inventory w)) = Some qc"
    show "list_all2 (row_frame mc qc (fst ` set changes))
           (df_rows (current_inventory w)) (df_rows (current_inventory w'))"
    proof (cases "changes = []")
      case True
      with run show ?thesis
        by (simp add: update_inventory_def list_all2_same row_frame_refl)
    next
      case False
      with run cols obtain st where
        all: "update_all mc qc changes
                \<lparr>ledger = df_rows (current_inventory w), updated = 0, warned = []\<rparr> = Inr st"
        and w': "w' = w\<lparr>current_inventory := (current_inventory w)\<lparr>df_rows := ledger st\<rparr>\<rparr>"
        by (auto elim: update_inventory_Inr)
      from update_all_frame[OF all] show ?thesis by (simp add: w')
    qed
  }
  {
    assume "find_msku_column (df_columns (current_inventory w)) = None \<or>
       find_quantity_column (df_columns (current_inventory w)) = None"
    with run show "w' = w"
      by (auto simp: update_inventory_def split: if_splits option.splits)
  }
next
  show "list_all2 (product_frame {m}) (products db)
     (products (current (snd (db_update_inventory fault now m D mtype ref note
        (begin_session db)))))"
    by (rule db_update_frame_begin)
next
  show "list_all2 (product_frame (fst ` set totals)) (products db)
     (products (current (fst (db_apply_changes faults clock bid fname totals
        (begin_session db, out)))))"
    by (rule db_apply_frame)
next
  assume "\<not> fault"
  then show "list_all2 (product_frame {m}) (products (current ss))
        (products (current (snd (db_update_inventory fault now m D mtype ref note ss))))"
    by (rule db_update_frame)
next
  show "stored (snd (db_update_inventory fault now m D mtype ref note ss)) = stored ss"
    by (rule db_update_stored)
next
  show "stored (fst (db_apply_changes faults clock bid fname totals (ss, out))) = stored ss"
    by (rule db_apply_stored)
qed

lemma ex_update_one:
  "update_inventory ex_wms [(''M1'', 3)] =
     Inr (Success 1 [],
          ex_wms\<lparr>current_inventory :=
            ex_inventory\<lparr>df_rows := [df_rows ex_inventory_after ! 0, df_rows ex_inventory ! 1]\<rparr>\<rparr>)"
  by (simp add: ex_wms_def ex_inventory_def ex_inventory_after_def ledger_simps)

text \<open>Selling three \<open>M1\<close>: the row and the product of \<open>M2\<close> stay, and so does the rest of \<open>M1\<close>.\<close>

theorem inventory_frame_witness:
  "update_inventory ex_wms [(''M1'', 3)] =
     Inr (Success 1 [],
          ex_wms\<lparr>current_inventory :=
            ex_inventory\<lparr>df_rows := [df_rows ex_inventory_after ! 0, df_rows ex_inventory ! 1]\<rparr>\<rparr>) \<and>
   find_msku_column (df_columns ex_inventory) = Some ''msku'' \<and>
   find_quantity_column (df_columns ex_inventory) = Some ''Opening Stock'' \<and>
   list_all2 (row_frame ''msku'' ''Opening Stock'' {''M1''}) (df_rows ex_inventory)
     [df_rows ex_inventory_after ! 0, df_rows ex_inventory ! 1] \<and>
   map_of (df_rows ex_inventory ! 0) ''Opening Stock'' = Some (Num 85) \<and>
   map_of (df_rows ex_inventory_after ! 0) ''Opening Stock'' = Some (Num 82) \<and>
   map_of (df_rows ex_inventory_after ! 0) ''Buffer Stock'' = Some (Num 90) \<and>
   list_all2 (product_frame {''M1''}) (products ex_db)
     (products (current (snd (db_update_inventory False 200 ''M1'' (- 3) ''Sale'' None None
        (begin_session ex_db))))) \<and>
   products (current (snd (db_update_inventory False 200 ''M1'' (- 3) ''Sale'' None None
        (begin_session ex_db)))) ! 1 = products ex_db ! 1 \<and>
   stored (snd (db_update_inventory False 200 ''M1'' (- 3) ''Sale'' None None
        (begin_session ex_db))) = ex_db"
  using inventory_frame [of ex_wms "[(''M1'', 3)]" "Success 1 []"
      "ex_wms\<lparr>current_inventory :=
         ex_inventory\<lparr>df_rows := [df_rows ex_inventory_after ! 0, df_rows ex_inventory ! 1]\<rparr>\<rparr>"
      "''M1''" ex_db False 200 "- 3" "''Sale''" None None "[(''M1'', 3)]" "\<lambda>m. False"
      "\<lambda>m. 200" "''B1''" "''sales.csv''" "[]" "begin_session ex_db"]
    ex_update_one
  by (simp add: ex_wms_def ex_inventory_def ex_inventory_after_def ex_db_def
      find_msku_column_def find_quantity_column_def db_update_inventory_def begin_session_def)

text \<open>
  In the product table the update of \<open>M1\<close> at time \<open>200\<close> also moves the column
  \<open>updated_at\<close> from \<open>100\<close> to \<open>200\<close>: the stock is not the only column modified.
\<close>

theorem inventory_frame_counterexample:
  "p_msku (products ex_db ! 0) = ''M1'' \<and>
   updated_at (products ex_db ! 0) = 100 \<and>
   fst (db_update_inventory False 200 ''M1'' (- 3) ''Sale'' None None (begin_session ex_db)) =
     (True, Updated ''M1'' 85 82) \<and>
   products (current (snd (db_update_inventory False 200 ''M1'' (- 3) ''Sale'' None None
       (begin_session ex_db)))) ! 0 =
     \<lparr>p_id = 1, p_msku = ''M1'', product_name = ''Widget'', opening_stock = 85,
      current_stock = 82, buffer_stock = 90, created_at = 100, updated_at = 200\<rparr> \<and>
   updated_at (products (current (snd (db_update_inventory False 200 ''M1'' (- 3) ''Sale''
       None None (begin_session ex_db)))) ! 0)
     \<noteq> updated_at (products ex_db ! 0)"
  by (simp add: ex_db_def db_update_inventory_def begin_session_def)

section \<open>Well-typed input raises nothing\<close>

lemma is_int_cell_iff: "is_int_cell c \<longleftrightarrow> (\<exists>n. c = Some (Num n))"
  by (cases c rule: is_int_cell.cases) auto

lemma numeric_cell:
  "numeric_column qc rows \<Longrightarrow> r \<in> set rows \<Longrightarrow> \<exists>n. map_of r qc = Some (Num n)"
  by (auto simp: numeric_column_def list_all_iff is_int_cell_iff)

lemma update_one_total:
  assumes "numeric_column qc (ledger st)" and "in_int64 (snd c)"
  shows "\<exists>st'. update_one mc qc c st = Inr st' \<and> numeric_column qc (ledger st')"
proof -
  obtain k s where c: "c = (k, s)" by (cases c)
  show ?thesis
  proof (cases "List.find (msku_mask mc k) (ledger st)")
    case None
    with assms show ?thesis by (simp add: c update_one_def)
  next
    case (Some r)
    then have "r \<in> set (ledger st)" by (auto simp: find_Some_iff)
    with assms obtain n where "map_of r qc = Some (Num n)" by (blast dest: numeric_cell)
    with Some assms show ?thesis
      by (auto simp: c update_one_def current_qty_def numeric_column_def list_all_iff
          map_of_row_set Let_def)
  qed
qed

lemma update_all_total:
  "numeric_column qc (ledger st) \<Longrightarrow> \<forall>c \<in> set cs. in_int64 (snd c) \<Longrightarrow>
   \<exists>st'. update_all mc qc cs st = Inr st'"
proof (induction cs arbitrary: st)
  case Nil
  then show ?case by simp
next
  case (Cons c cs)
  from Cons.prems have "in_int64 (snd c)" and rest: "\<forall>c \<in> set cs. in_int64 (snd c)"
    by simp_all
  from update_one_total[OF Cons.prems(1) this(1), of mc] obtain st1 where
    "update_one mc qc c st = Inr st1" "numeric_column qc (ledger st1)" by blast
  with Cons.IH[of st1] rest show ?case by simp
qed

lemma update_inventory_total:
  assumes "\<And>qc. find_quantity_column (df_columns (current_inventory w)) = Some qc \<Longrightarrow>
             numeric_column qc (df_rows (current_inventory w))"
    and "\<forall>c \<in> set changes. in_int64 (snd c)"
  shows "\<exists>rep w'. update_inventory w changes = Inr (rep, w')"
proof (cases "find_quantity_column (df_columns (current_inventory w))")
  case None
  then show ?thesis by (simp add: update_inventory_def split: option.splits)
next
  case (Some qc)
  show ?thesis
  proof (cases "find_msku_column (df_columns (current_inventory w))")
    case None
    then show ?thesis by (simp add: update_inventory_def)
  next
    case (Some mc)
    from update_all_total[of qc "\<lparr>ledger = df_rows (current_inventory w), updated = 0, warned = []\<rparr>"
        changes mc] assms(1)[OF \<open>find_quantity_column _ = Some qc\<close>] assms(2)
    obtain st where "update_all mc qc changes
        \<lparr>ledger = df_rows (current_inventory w), updated = 0, warned = []\<rparr> = Inr st"
      by auto
    with Some \<open>find_quantity_column _ = Some qc\<close> show ?thesis
      by (simp add: update_inventory_def)
  qed
qed

lemma as_int_typed:
  "map_of r ''Quantity'' = None \<or> is_int_cell (map_of r ''Quantity'') \<Longrightarrow>
   \<exists>q. row_get r ''Quantity'' (Num 1) = Num q"
  by (auto simp: row_get_def is_int_cell_iff)

lemma process_row_total:
  assumes "map_of r c \<noteq> None"
    and "map_of r ''Quantity'' = None \<or> is_int_cell (map_of r ''Quantity'')"
  shows "\<exists>a'. process_row w p c r a = Inr a'"
proof -
  from as_int_typed[OF assms(2)] obtain q where q: "row_get r ''Quantity'' (Num 1) = Num q"
    by blast
  from assms(1) obtain sku where sku: "map_of r c = Some sku" by auto
  show ?thesis
    by (simp add: process_row_def sku q Let_def emit_lines_Num)
qed

lemma process_rows_total:
  "typed_rows c rows \<Longrightarrow> \<exists>a'. process_rows w p c rows a = Inr a'"
proof (induction rows arbitrary: a)
  case Nil
  then show ?case by simp
next
  case (Cons r rows)
  then have "map_of r c \<noteq> None"
    and "map_of r ''Quantity'' = None \<or> is_int_cell (map_of r ''Quantity'')"
    and rest: "typed_rows c rows"
    by (simp_all add: typed_rows_def)
  from process_row_total[OF this(1,2), of w p a] obtain a1 where
    "process_row w p c r a = Inr a1" by blast
  with Cons.IH[OF rest, of a1] show ?case by simp
qed

lemma process_sales_file_total:
  assumes "get_sku_column (df_columns df) (detect_platform (df_columns df)) = Some c"
    and "typed_rows c (df_rows df)"
  shows "\<exists>res. process_sales_file w df = Inr res"
proof -
  from process_rows_total[OF assms(2), of w "detect_platform (df_columns df)"
      "\<lparr>processed_rows = [], inventory_changes = []\<rparr>"]
  obtain a where "process_rows w (detect_platform (df_columns df)) c (df_rows df)
      \<lparr>processed_rows = [], inventory_changes = []\<rparr> = Inr a"
    by blast
  with assms(1) show ?thesis by (simp add: process_sales_file_def)
qed

end
